theory Spec2Isabelle
  imports Main "HOL-Library.Word"
begin

section \<open>Ledger scanner: data model and operations\<close>

text \<open>
  The scanner reads blocks of Internet Computer ledgers and reports the transfers that touch
  a watched account. This part embeds the functions of the TypeScript sources; the second part
  proves the properties the specification states about them.

  Conventions of the embedding: bytes (Candid \<open>nat8\<close>) are 8-bit words and \<open>nat64\<close>
  fields are 64-bit words; a \<open>bigint\<close> is an \<open>int\<close> (or a \<open>nat\<close> where Candid
  declares \<open>nat\<close>); a \<open>number\<close> that counts blocks or milliseconds is an \<open>int\<close>;
  \<open>null\<close> and \<open>undefined\<close> are \<open>None\<close>; a JavaScript string is a \<open>string\<close> of
  ASCII characters.
\<close>

type_synonym byte = "8 word"

subsection \<open>String helpers of the JavaScript runtime\<close>

text \<open>
  \<open>n.toString(r)\<close> for a non-negative integer and a radix \<open>r\<close> from 2 to 16 (the
  sources use 10 and 16; the digit table stops at \<open>f\<close>), \<open>s.padStart(n, c)\<close> for a
  one-character filler, and the value that \<open>BigInt(s)\<close> reads from a string of digits.
\<close>

definition digitChar :: "nat \<Rightarrow> char" where
  "digitChar d = ''0123456789abcdef'' ! d"

function showRadix :: "nat \<Rightarrow> nat \<Rightarrow> string" where
  "showRadix r n =
     (if n < r \<or> r < 2 then [digitChar n]
      else showRadix r (n div r) @ [digitChar (n mod r)])"
  by pat_completeness auto
termination
  by (relation "measure (\<lambda>(r, n). n)") auto

declare showRadix.simps [simp del]

definition padStart :: "nat \<Rightarrow> char \<Rightarrow> string \<Rightarrow> string" where
  "padStart n c s = replicate (n - length s) c @ s"

definition digitVal :: "char \<Rightarrow> nat" where
  "digitVal c =
     (let k = (of_char c :: nat)
      in if 48 \<le> k \<and> k \<le> 57 then k - 48
         else if 97 \<le> k \<and> k \<le> 122 then k - 87
         else 0)"

definition readRadix :: "nat \<Rightarrow> string \<Rightarrow> nat" where
  "readRadix r s = foldl (\<lambda>a c. a * r + digitVal c) 0 s"

definition lowerHexChar :: "char \<Rightarrow> bool" where
  "lowerHexChar c = (c \<in> set ''0123456789abcdef'')"

definition lowerHex :: "string \<Rightarrow> bool" where
  "lowerHex s = list_all lowerHexChar s"

text \<open>\<open>a || b\<close> on strings: the empty string is falsy.\<close>

definition strOr :: "string \<Rightarrow> string \<Rightarrow> string" where
  "strOr a b = (if a \<noteq> [] then a else b)"

text \<open>\<open>s.toLowerCase()\<close> on ASCII text.\<close>

definition toLowerChar :: "char \<Rightarrow> char" where
  "toLowerChar c =
     (let k = (of_char c :: nat) in if 65 \<le> k \<and> k \<le> 90 then char_of (k + 32) else c)"

definition toLowerCase :: "string \<Rightarrow> string" where
  "toLowerCase s = map toLowerChar s"

text \<open>
  Exceptions are values: a computation that may throw returns \<open>js_error + 'a\<close>, and
  \<open>try { body } catch { handler }\<close> is \<open>tryCatch body handler\<close>.
\<close>

datatype js_error = SyntaxError | RangeError | TypeError | NetworkError

definition tryCatch :: "js_error + 'a \<Rightarrow> (js_error \<Rightarrow> js_error + 'a) \<Rightarrow> js_error + 'a" where
  "tryCatch body handler = (case body of Inl e \<Rightarrow> handler e | Inr v \<Rightarrow> Inr v)"

subsection \<open>Hex rendering (\<open>toHex\<close>, \<open>memoToHex\<close>, scanner.ts)\<close>

text \<open>
  \<^verbatim>\<open>
  function toHex(a: Uint8Array): string {
    return [...a].map((b) => b.toString(16).padStart(2, "0")).join("");
  }
  function memoToHex(m?: unknown): string {
    if (!m) return "";
    // ICP uses u64 for memo
    if (typeof m === "bigint" || typeof m === "number") {
      return BigInt(m).toString(16).padStart(16, "0");
    }
    const bytes = m instanceof Uint8Array ? m : Uint8Array.from(m as ArrayLike<number>);
    return [...bytes].map((b) => b.toString(16).padStart(2, "0")).join("");
  }
  \<close>
  The memo of a native-ledger transaction is a Candid \<open>nat64\<close>; the function also accepts a
  byte sequence. \<open>!m\<close> holds for an absent memo and for the number zero, and for no byte
  array (an empty array is an object, hence truthy).
\<close>

definition toHex :: "byte list \<Rightarrow> string" where
  "toHex a = concat (map (\<lambda>b. padStart 2 CHR ''0'' (showRadix 16 (unat b))) a)"

datatype memo = MemoAbsent | MemoNat64 "64 word" | MemoBytes "byte list"

definition memoToHex :: "memo \<Rightarrow> string" where
  "memoToHex m =
     (case m of
        MemoAbsent \<Rightarrow> ''''
      | MemoNat64 w \<Rightarrow>
          if w = 0 then ''''
          else padStart 16 CHR ''0'' (showRadix 16 (unat w))
      | MemoBytes bytes \<Rightarrow>
          concat (map (\<lambda>b. padStart 2 CHR ''0'' (showRadix 16 (unat b))) bytes))"

subsection \<open>Sub-identity normalisation (\<open>normalizeSub\<close>, scanner.ts)\<close>

text \<open>
  \<^verbatim>\<open>
  function normalizeSub(sa?: number[] | null): number[] | null {
    if (!sa || !sa.length) return null;
    if (sa.length === 32 && sa.every((b) => b === 0)) return null;
    return sa;
  }
  \<close>
\<close>

definition normalizeSub :: "byte list option \<Rightarrow> byte list option" where
  "normalizeSub sa =
     (case sa of
        None \<Rightarrow> None
      | Some s \<Rightarrow>
          if length s = 0 then None
          else if length s = 32 \<and> list_all (\<lambda>b. b = 0) s then None
          else Some s)"

subsection \<open>Amount formatting (\<open>formatAmount\<close>, scanner.ts)\<close>

text \<open>
  \<^verbatim>\<open>
  function formatAmount(raw: string, decimals: number): string {
    const s = raw.replace(/^0+/, "") || "0";
    if (decimals <= 0) return s;
    const whole = s.length > decimals ? s.slice(0, -decimals) : "0";
    const frac = s.length > decimals ? s.slice(-decimals) : s.padStart(decimals, "0");
    const trimmed = frac.replace(/0+$/, "");
    return trimmed.length ? `${whole}.${trimmed}` : whole;
  }
  \<close>
  The callers pass \<open>amount.toString()\<close> of a non-negative \<open>bigint\<close> as \<open>raw\<close>.
\<close>

text \<open>
  \<open>s.slice(start, end)\<close>: a negative index counts from the end of the string, and both
  indices are clamped to the string. \<open>-0\<close> is \<open>0\<close>, an index from the start.
\<close>

definition jsSlice :: "string \<Rightarrow> int \<Rightarrow> int option \<Rightarrow> string" where
  "jsSlice s start stop =
     (let n = int (length s);
          from = (if start < 0 then max (n + start) 0 else min start n);
          to = (case stop of
                  None \<Rightarrow> n
                | Some e \<Rightarrow> if e < 0 then max (n + e) 0 else min e n)
      in take (nat (to - from)) (drop (nat from) s))"

definition stripLeadingZeros :: "string \<Rightarrow> string" where
  "stripLeadingZeros s = dropWhile (\<lambda>c. c = CHR ''0'') s"

definition stripTrailingZeros :: "string \<Rightarrow> string" where
  "stripTrailingZeros s = rev (dropWhile (\<lambda>c. c = CHR ''0'') (rev s))"

definition formatAmount :: "string \<Rightarrow> int \<Rightarrow> string" where
  "formatAmount raw decimals =
     (let s = (if stripLeadingZeros raw = [] then ''0'' else stripLeadingZeros raw)
      in if decimals \<le> 0 then s
         else
           let whole = (if int (length s) > decimals then jsSlice s 0 (Some (- decimals))
                        else ''0'');
               frac = (if int (length s) > decimals then jsSlice s (- decimals) None
                       else padStart (nat decimals) CHR ''0'' s);
               trimmed = stripTrailingZeros frac
           in if length trimmed \<noteq> 0 then whole @ ''.'' @ trimmed else whole)"

subsection \<open>Reading a decimal amount back (\<open>toUnitsBig\<close>, holdings verifier)\<close>

text \<open>
  \<^verbatim>\<open>
  function toUnitsBig(human: string, decimals: number): bigint {
    const [w, f = ""] = String(human ?? "").split(".");
    const frac = (f + "0".repeat(decimals)).slice(0, decimals);
    return BigInt(w || "0") * 10n ** BigInt(decimals) + BigInt(frac || "0");
  }
  \<close>
  \<open>BigInt(s)\<close> raises a \<open>SyntaxError\<close> on a string that is no integer literal; the model
  accepts the strings of decimal digits (the empty string reads as zero) and rejects every
  other string. \<open>"0".repeat(n)\<close> and \<open>10n ** n\<close> raise a \<open>RangeError\<close> for negative \<open>n\<close>.
\<close>

definition decDigit :: "char \<Rightarrow> bool" where
  "decDigit c = (48 \<le> (of_char c :: nat) \<and> (of_char c :: nat) \<le> 57)"

definition jsBigInt :: "string \<Rightarrow> js_error + int" where
  "jsBigInt s = (if list_all decDigit s then Inr (int (readRadix 10 s)) else Inl SyntaxError)"

fun splitOn :: "char \<Rightarrow> string \<Rightarrow> string list" where
  "splitOn c [] = [[]]"
| "splitOn c (x # xs) =
     (if x = c then [] # splitOn c xs
      else (case splitOn c xs of [] \<Rightarrow> [[x]] | p # ps \<Rightarrow> (x # p) # ps))"

definition toUnitsBig :: "string \<Rightarrow> int \<Rightarrow> js_error + int" where
  "toUnitsBig human decimals =
     (let parts = splitOn CHR ''.'' human;
          w = hd parts;
          f = (if length parts \<ge> 2 then parts ! 1 else '''')
      in if decimals < 0 then Inl RangeError
         else
           let d = nat decimals;
               frac = take d (f @ replicate d CHR ''0'')
           in case jsBigInt (if w = [] then ''0'' else w) of
                Inl e \<Rightarrow> Inl e
              | Inr wv \<Rightarrow>
                  (case jsBigInt (if frac = [] then ''0'' else frac) of
                     Inl e \<Rightarrow> Inl e
                   | Inr fv \<Rightarrow> Inr (wv * 10 ^ d + fv)))"

subsection \<open>Amount formatting of the flow retriever (\<open>formatAmount\<close>, rosetta-flow-retriever.ts)\<close>

text \<open>
  \<^verbatim>\<open>
  function formatAmount(value: string, decimals: number): string {
    const absValue = value.startsWith("-") ? value.slice(1) : value;
    const paddedValue = absValue.padStart(decimals + 1, "0");
    const integerPart = paddedValue.slice(0, -decimals) || "0";
    const fractionalPart = paddedValue.slice(-decimals);
    const trimmedFractional = fractionalPart.replace(/0+$/, "");
    const formatted = trimmedFractional ? `${integerPart}.${trimmedFractional}` : integerPart;
    return value.startsWith("-") ? `-${formatted}` : formatted;
  }
  \<close>
  Its callers pass the decimals of the table \<open>ROSETTA_CONFIGS\<close>: 8 or 6.
\<close>

definition formatAmount_rosetta :: "string \<Rightarrow> int \<Rightarrow> string" where
  "formatAmount_rosetta val decimals =
     (let negative = (take 1 val = ''-'');
          absValue = (if negative then jsSlice val 1 None else val);
          paddedValue = padStart (nat (decimals + 1)) CHR ''0'' absValue;
          integerPart = strOr (jsSlice paddedValue 0 (Some (- decimals))) ''0'';
          fractionalPart = jsSlice paddedValue (- decimals) None;
          trimmedFractional = stripTrailingZeros fractionalPart;
          formatted = (if trimmedFractional \<noteq> [] then integerPart @ ''.'' @ trimmedFractional
                       else integerPart)
      in if negative then ''-'' @ formatted else formatted)"

subsection \<open>Scan window and segments (\<open>scanIcpLedger\<close>, \<open>buildSegments\<close>, scanner.ts)\<close>

text \<open>
  \<^verbatim>\<open>
  const endIndex = chainLength - 1n;
  const startIndex =
    endIndex > BigInt(MAX_BLOCKS_PER_LEDGER) ? endIndex - BigInt(MAX_BLOCKS_PER_LEDGER) : 0n;
  const segs = buildSegments(startIndex, endIndex, PAGE);

  function buildSegments(startIndex: bigint, endIndex: bigint, page: number) {
    const segs: Array<{ start: bigint; length: bigint; idx: number }> = [];
    let cursor = endIndex;
    let idx = 0;
    while (cursor >= startIndex) {
      const length = BigInt(Math.min(page, Number(cursor - startIndex + 1n)));
      const start = cursor - (length - 1n);
      segs.push({ start, length, idx });
      if (start === 0n) break;
      cursor = start - 1n;
      idx++;
    }
    return segs;
  }
  \<close>
  The loop does not end for every input (with \<open>page = 0\<close> the cursor never moves), so it is
  a partial function: \<open>None\<close> is the run that never returns. The page size is an integer
  \<open>number\<close> of at most \<open>2^53\<close>; then \<open>BigInt(Math.min(page, Number(n)))\<close> is the minimum
  of \<open>page\<close> and \<open>n\<close> for every \<open>bigint n\<close>, since \<open>Number(n)\<close> is exact up to
  \<open>2^53\<close> and not below \<open>2^53\<close> beyond it.
\<close>

record segment =
  seg_start :: int
  seg_length :: int
  seg_idx :: nat

definition scanWindow :: "int \<Rightarrow> int \<Rightarrow> int \<times> int" where
  "scanWindow chainLength maxBlocks =
     (let endIndex = chainLength - 1;
          startIndex = (if endIndex > maxBlocks then endIndex - maxBlocks else 0)
      in (startIndex, endIndex))"

partial_function (option) buildSegments_loop ::
  "int \<Rightarrow> int \<Rightarrow> int \<Rightarrow> nat \<Rightarrow> segment list \<Rightarrow> segment list option" where
  "buildSegments_loop startIndex page cursor idx segs =
     (if cursor \<ge> startIndex then
        let len = min page (cursor - startIndex + 1);
            start = cursor - (len - 1);
            segs' = segs @ [\<lparr>seg_start = start, seg_length = len, seg_idx = idx\<rparr>]
        in if start = 0 then Some segs'
           else buildSegments_loop startIndex page (start - 1) (idx + 1) segs'
      else Some segs)"

definition buildSegments :: "int \<Rightarrow> int \<Rightarrow> int \<Rightarrow> segment list option" where
  "buildSegments startIndex endIndex page = buildSegments_loop startIndex page endIndex 0 []"



subsection \<open>Tagged values and identities (scanner.ts)\<close>

text \<open>
  The generic block format of ICRC-3 ledgers, as the Candid interface declares it:
  \<^verbatim>\<open>
  Value = IDL.Variant({ Blob: IDL.Vec(IDL.Nat8), Text: IDL.Text, Nat: IDL.Nat, Int: IDL.Int,
                        Array: IDL.Vec(Value), Map: IDL.Vec(IDL.Tuple(IDL.Text, Value)) })
  type Account = { owner: Principal; subaccount?: number[] | null };
  \<close>
  A decoded variant is an object with the one key of its tag, so \<open>v.Map\<close> is truthy exactly
  for a \<open>Map\<close> value (an array, even an empty one, is truthy). A principal is represented
  by its text form, the only thing the scanner reads from it; \<open>Principal.fromUint8Array\<close>
  belongs to the agent library and is a parameter of the model that may throw.
\<close>

datatype Value =
    VBlob "byte list"
  | VText string
  | VNat nat
  | VInt int
  | VArray "Value list"
  | VMap "(string \<times> Value) list"

datatype principal = Principal (toText: string)

record Account =
  owner :: principal
  subaccount :: "byte list option"

text \<open>
  \<^verbatim>\<open>
  function extractValue(value: unknown, key: string): unknown {
    const v = value as { Map?: unknown };
    if (!value || !v.Map) return null;
    const map = (value as { Map?: [string, unknown][] }).Map;
    if (!map) return null;
    const entry = map.find(([k]) => k === key);
    return entry ? entry[1] : null;
  }
  function extractText(value: unknown): string {
    if (!value) return "";
    const v = value as { Text?: string; Nat?: bigint; Int?: bigint };
    if (v.Text !== undefined) return v.Text;
    if (v.Nat !== undefined) return v.Nat.toString();
    if (v.Int !== undefined) return v.Int.toString();
    return "";
  }
  function extractNat(value: unknown): bigint {
    const v = value as { Nat?: bigint | string | number };
    if (!value || v.Nat === undefined) return 0n;
    return BigInt(v.Nat);
  }
  function extractBlob(value: unknown): number[] {
    const v = value as { Blob?: number[] };
    if (!value || !v.Blob) return [];
    return v.Blob;
  }
  \<close>
\<close>

definition extractValue :: "Value option \<Rightarrow> string \<Rightarrow> Value option" where
  "extractValue value key =
     (case value of
        Some (VMap m) \<Rightarrow>
          (case find (\<lambda>(k, v). k = key) m of
             Some entry \<Rightarrow> Some (snd entry)
           | None \<Rightarrow> None)
      | _ \<Rightarrow> None)"

definition extractText :: "Value option \<Rightarrow> string" where
  "extractText value =
     (case value of
        Some (VText t) \<Rightarrow> t
      | Some (VNat n) \<Rightarrow> showRadix 10 n
      | Some (VInt i) \<Rightarrow> (if i < 0 then ''-'' @ showRadix 10 (nat (- i)) else showRadix 10 (nat i))
      | _ \<Rightarrow> '''')"

definition extractNat :: "Value option \<Rightarrow> nat" where
  "extractNat value = (case value of Some (VNat n) \<Rightarrow> n | _ \<Rightarrow> 0)"

definition extractBlob :: "Value option \<Rightarrow> byte list" where
  "extractBlob value = (case value of Some (VBlob b) \<Rightarrow> b | _ \<Rightarrow> [])"

text \<open>
  \<^verbatim>\<open>
  function extractAccount(value: unknown): Account | null {
    if (!value) return null;
    // Map form: { owner: Blob, subaccount: opt Blob }
    const v = value as { Map?: unknown; Array?: unknown };
    if (v.Map) {
      const ownerVal = extractValue(value, "owner");
      const subVal = extractValue(value, "subaccount");
      const ownerBlob = extractBlob(ownerVal);
      if (!ownerBlob.length) return null;
      try {
        const owner = Principal.fromUint8Array(new Uint8Array(ownerBlob));
        const sub = extractBlob(subVal);
        return { owner, subaccount: sub?.length ? sub : null };
      } catch {
        return null;
      }
    }
    // Array/Tuple form: [ownerBlob, subaccountBlob?]
    const arr = v.Array as { Blob?: number[] }[] | undefined;
    if (arr && arr[0]?.Blob) {
      try {
        const owner = Principal.fromUint8Array(new Uint8Array(arr[0].Blob));
        const sub = arr[1]?.Blob;
        return { owner, subaccount: sub?.length ? sub : null };
      } catch {
        return null;
      }
    }
    return null;
  }
  \<close>
  The result is \<open>Inl e\<close> when the call throws \<open>e\<close>, \<open>Inr None\<close> when it returns
  \<open>null\<close>, and \<open>Inr (Some a)\<close> when it returns the account \<open>a\<close>.
\<close>

definition blobOf :: "Value option \<Rightarrow> byte list option" where
  "blobOf value = (case value of Some (VBlob b) \<Rightarrow> Some b | _ \<Rightarrow> None)"

definition extractAccount ::
  "(byte list \<Rightarrow> js_error + principal) \<Rightarrow> Value option \<Rightarrow> js_error + Account option" where
  "extractAccount fromUint8Array value =
     (case value of
        None \<Rightarrow> Inr None
      | Some (VMap m) \<Rightarrow>
          (let ownerVal = extractValue value ''owner'';
               subVal = extractValue value ''subaccount'';
               ownerBlob = extractBlob ownerVal
           in if length ownerBlob = 0 then Inr None
              else tryCatch
                (case fromUint8Array ownerBlob of
                   Inl e \<Rightarrow> Inl e
                 | Inr prin \<Rightarrow>
                     (let sub = extractBlob subVal
                      in Inr (Some \<lparr>owner = prin,
                                    subaccount = (if length sub \<noteq> 0 then Some sub else None)\<rparr>)))
                (\<lambda>e. Inr None))
      | Some (VArray arr) \<Rightarrow>
          (case blobOf (if arr = [] then None else Some (arr ! 0)) of
             Some blob0 \<Rightarrow>
               tryCatch
                 (case fromUint8Array blob0 of
                    Inl e \<Rightarrow> Inl e
                  | Inr prin \<Rightarrow>
                      (let sub = blobOf (if length arr > 1 then Some (arr ! 1) else None)
                       in Inr (Some \<lparr>owner = prin,
                                     subaccount = (case sub of
                                                     None \<Rightarrow> None
                                                   | Some s \<Rightarrow> if length s \<noteq> 0 then Some s
                                                              else None)\<rparr>)))
                 (\<lambda>e. Inr None)
           | None \<Rightarrow> Inr None)
      | _ \<Rightarrow> Inr None)"

text \<open>
  \<^verbatim>\<open>
  function eqAccount(a: Account | null, b: Account): boolean {
    if (!a) return false;
    if (a.owner.toText() !== b.owner.toText()) return false;
    const sa = normalizeSub(a.subaccount);
    const sb = normalizeSub(b.subaccount);
    if (!sa && !sb) return true;
    if (!!sa !== !!sb || sa!.length !== sb!.length) return false;
    for (let i = 0; i < sa!.length; i++) if (sa![i] !== sb![i]) return false;
    return true;
  }
  \<close>
\<close>

definition eqAccount :: "Account option \<Rightarrow> Account \<Rightarrow> bool" where
  "eqAccount a b =
     (case a of
        None \<Rightarrow> False
      | Some a' \<Rightarrow>
          if toText (owner a') \<noteq> toText (owner b) then False
          else
            (let sa = normalizeSub (subaccount a'); sb = normalizeSub (subaccount b)
             in case (sa, sb) of
                  (None, None) \<Rightarrow> True
                | (Some x, Some y) \<Rightarrow>
                    if length x \<noteq> length y then False
                    else list_all (\<lambda>i. x ! i = y ! i) [0 ..< length x]
                | _ \<Rightarrow> False))"

subsection \<open>Report rows\<close>

text \<open>
  \<^verbatim>\<open>
  type CsvRow = {
    date_iso: string; token: string;
    direction: "inflow" | "outflow" | "self" | "mint" | "burn";
    amount: string; from_principal: string; to_principal: string;
    block_index: string; memo: string;
  };
  \<close>
  The date string is rendered by the runtime's \<open>Date\<close>; the row records which instant is
  rendered and by which call: \<open>""\<close>, \<open>new Date(ms).toISOString()\<close>,
  \<open>new Date(Number(ns) / 1_000_000).toISOString()\<close>, or \<open>utils.toISO(x)\<close> of the REST
  scanner for a number or a string \<open>x\<close>.
\<close>

datatype Direction = Inflow | Outflow | Self | Mint | Burn

datatype date_iso =
    EmptyDate
  | DateOfMillis int
  | DateOfNanos nat
  | ToISOofNumber int
  | ToISOofString string

record CsvRow =
  date_iso :: date_iso
  token :: string
  direction :: Direction
  amount :: string
  from_principal :: string
  to_principal :: string
  block_index :: string
  memo :: string

subsection \<open>Time window of the parallel scanner (scanner.ts)\<close>

text \<open>
  \<^verbatim>\<open>
  const [FROM_MS, TO_MS] = _start <= _end ? [_start, _end] : [_end, _start];
  const FROM_TS = BigInt(FROM_MS) * 1_000_000n; // nanoseconds
  const TO_TS = BigInt(TO_MS) * 1_000_000n;
  \<close>
\<close>

record scan_window =
  FROM_MS :: int
  TO_MS :: int

definition FROM_TS :: "scan_window \<Rightarrow> int" where
  "FROM_TS w = FROM_MS w * 1000000"

definition TO_TS :: "scan_window \<Rightarrow> int" where
  "TO_TS w = TO_MS w * 1000000"

subsection \<open>ICRC-3 block handler (\<open>handleIcrcBlock\<close> in \<open>scanIcrcLedger\<close>, scanner.ts)\<close>

text \<open>
  \<^verbatim>\<open>
  function handleIcrcBlock(bw: { id: bigint; block: any }) {
    const block = bw.block;
    const ts = extractNat(extractValue(block, "ts"));
    if (ts < FROM_TS || ts > TO_TS) return;
    const tx = extractValue(block, "tx");
    if (!tx || !(tx as any).Map) return;
    const opType =
      extractText(extractValue(tx, "op")) ||
      extractText(extractValue(block, "btype")) ||
      extractText(extractValue(block, "type"));
    if (opType !== "xfer" && opType !== "transfer") return;
    const from = extractAccount(extractValue(tx, "from"));
    const to = extractAccount(extractValue(tx, "to"));
    const amount = extractNat(extractValue(tx, "amt")).toString();
    const memo = toHex(new Uint8Array(extractBlob(extractValue(tx, "memo"))));
    let direction: CsvRow["direction"] | null = null;
    if (from && to) {
      if (eqAccount(from, wallet) && eqAccount(to, wallet)) direction = "self";
      else if (eqAccount(to, wallet)) direction = "inflow";
      else if (eqAccount(from, wallet)) direction = "outflow";
    }
    if (!direction) return;
    const row: CsvRow = {
      date_iso: new Date(Number(ts) / 1_000_000).toISOString(),
      token: symbol, direction, amount: formatAmount(amount, decimals),
      from_principal: from?.owner.toText() || "", to_principal: to?.owner.toText() || "",
      block_index: bw.id.toString(), memo,
    };
    rows.push(row); emitRow(symbol, row); matches++;
  }
  \<close>
  The handler returns the row it emits, \<open>None\<close> when it emits none. The classification of the
  direction (the \<open>let direction ... if (from && to) { ... }\<close> lines) is \<open>icrcDirection\<close>.
\<close>

definition icrcDirection :: "Account option \<Rightarrow> Account option \<Rightarrow> Account \<Rightarrow> Direction option" where
  "icrcDirection from to wallet =
     (if from \<noteq> None \<and> to \<noteq> None then
        (if eqAccount from wallet \<and> eqAccount to wallet then Some Self
         else if eqAccount to wallet then Some Inflow
         else if eqAccount from wallet then Some Outflow
         else None)
      else None)"

definition isMap :: "Value option \<Rightarrow> bool" where
  "isMap v = (case v of Some (VMap m) \<Rightarrow> True | _ \<Rightarrow> False)"

definition handleIcrcBlock ::
  "(byte list \<Rightarrow> js_error + principal) \<Rightarrow> scan_window \<Rightarrow> Account \<Rightarrow> string \<Rightarrow> int
     \<Rightarrow> nat \<times> Value \<Rightarrow> js_error + CsvRow option" where
  "handleIcrcBlock fromUint8Array win wallet symbol decimals bw =
     (let block = Some (snd bw);
          ts = extractNat (extractValue block ''ts'')
      in if int ts < FROM_TS win \<or> int ts > TO_TS win then Inr None
         else
           let tx = extractValue block ''tx''
           in if \<not> isMap tx then Inr None
              else
                let opType =
                      strOr (extractText (extractValue tx ''op''))
                        (strOr (extractText (extractValue block ''btype''))
                               (extractText (extractValue block ''type'')))
                in if opType \<noteq> ''xfer'' \<and> opType \<noteq> ''transfer'' then Inr None
                   else
                     (case extractAccount fromUint8Array (extractValue tx ''from'') of
                        Inl e \<Rightarrow> Inl e
                      | Inr from \<Rightarrow>
                          (case extractAccount fromUint8Array (extractValue tx ''to'') of
                             Inl e \<Rightarrow> Inl e
                           | Inr to \<Rightarrow>
                               (let amt = showRadix 10 (extractNat (extractValue tx ''amt''));
                                    mem = toHex (extractBlob (extractValue tx ''memo''))
                                in case icrcDirection from to wallet of
                                     None \<Rightarrow> Inr None
                                   | Some d \<Rightarrow>
                                       Inr (Some
                                         \<lparr>date_iso = DateOfNanos ts,
                                          token = symbol,
                                          direction = d,
                                          amount = formatAmount amt decimals,
                                          from_principal =
                                            (case from of None \<Rightarrow> '''' | Some a \<Rightarrow> toText (owner a)),
                                          to_principal =
                                            (case to of None \<Rightarrow> '''' | Some a \<Rightarrow> toText (owner a)),
                                          block_index = showRadix 10 (fst bw),
                                          memo = mem\<rparr>)))))"

subsection \<open>Native-ledger block handler (\<open>handleBlock\<close> in \<open>scanIcpLedger\<close>, scanner.ts)\<close>

text \<open>
  The blocks of the native ledger, as its Candid interface declares them (the fields the
  scanner does not read are left out):
  \<^verbatim>\<open>
  Transfer = { from: AccountIdentifier, to: AccountIdentifier, amount: Tokens, fee, spender }
  Mint = { to: AccountIdentifier, amount: Tokens }
  Burn = { from: AccountIdentifier, spender, amount: Tokens }
  Approve = { from: AccountIdentifier, spender: AccountIdentifier, ... }
  Operation = IDL.Variant({ Transfer, Mint, Burn, Approve })
  Transaction = { memo: IDL.Nat64, icrc1_memo, operation: IDL.Opt(Operation), created_at_time }
  Block = { parent_hash, transaction: Transaction, timestamp: { timestamp_nanos: IDL.Nat64 } }
  \<close>
\<close>

datatype Operation =
    OpTransfer "byte list" "byte list" "64 word"
  | OpMint "byte list" "64 word"
  | OpBurn "byte list" "64 word"
  | OpApprove "byte list" "byte list"

record IcpBlock =
  timestamp_nanos :: "64 word"
  tx_memo :: "64 word"
  tx_operation :: "Operation option"

text \<open>
  \<^verbatim>\<open>
  function n64ToMillis(n?: unknown): number | null {
    if (n === undefined || n === null) return null;
    try {
      const nanos = (n as { timestamp_nanos?: unknown }).timestamp_nanos ?? n;
      return Number(BigInt(nanos as string | number | bigint) / 1_000_000n);
    } catch {
      return null;
    }
  }
  function accountIdToHex(accountId: number[]): string {
    return toHex(new Uint8Array(accountId));
  }
  \<close>
\<close>

definition n64ToMillis :: "64 word option \<Rightarrow> int option" where
  "n64ToMillis n = (case n of None \<Rightarrow> None | Some nanos \<Rightarrow> Some (uint nanos div 1000000))"

definition accountIdToHex :: "byte list \<Rightarrow> string" where
  "accountIdToHex accountId = toHex accountId"

text \<open>
  \<^verbatim>\<open>
  const targetHex = icpAccountIdHex.toLowerCase();
  ...
  function handleBlock(block: any, blockIndex: bigint) {
    const ts = n64ToMillis(block?.timestamp);
    if (ts && (ts < FROM_MS || ts > TO_MS)) return;
    const tx = block?.transaction;
    const opVal = tx?.operation;
    const optInner = Array.isArray(opVal) ? opVal[0] : opVal;
    if (!optInner) return;
    const opKey = Object.keys(optInner)[0];
    if (opKey !== "Transfer") return;
    const op = (optInner as any)[opKey] as { from?: number[]; to?: number[]; amount?: { e8s?: bigint } };
    const fromHex = accountIdToHex(op.from || []);
    const toHex = accountIdToHex(op.to || []);
    const amount = (op.amount?.e8s || 0n).toString();
    const memo = memoToHex(tx?.memo);
    let direction: CsvRow["direction"] | null = null;
    if (fromHex === targetHex && toHex === targetHex) direction = "self";
    else if (toHex === targetHex) direction = "inflow";
    else if (fromHex === targetHex) direction = "outflow";
    if (direction) {
      const date_iso = ts ? new Date(ts).toISOString() : "";
      const row: CsvRow = { date_iso, token: symbol, direction,
        amount: formatAmount(amount, decimals), from_principal: "", to_principal: "",
        block_index: blockIndex.toString(), memo };
      rows.push(row); emitRow(symbol, row); matches++;
    }
  }
  \<close>
  \<open>ts && ...\<close> and \<open>ts ? ... : ""\<close> take their first branch only for a truthy \<open>ts\<close>:
  neither \<open>null\<close> nor the number zero. The milliseconds \<open>Number(nanos / 1_000_000n)\<close> of
  a \<open>nat64\<close> are below \<open>2^53\<close>, where \<open>Number\<close> is exact.
\<close>

definition handleBlock ::
  "scan_window \<Rightarrow> string \<Rightarrow> string \<Rightarrow> int \<Rightarrow> IcpBlock \<Rightarrow> nat \<Rightarrow> CsvRow option" where
  "handleBlock win icpAccountIdHex symbol decimals block blockIndex =
     (let targetHex = toLowerCase icpAccountIdHex;
          ts = n64ToMillis (Some (timestamp_nanos block))
      in if (case ts of
               None \<Rightarrow> False
             | Some t \<Rightarrow> t \<noteq> 0 \<and> (t < FROM_MS win \<or> t > TO_MS win)) then None
         else
           (case tx_operation block of
              None \<Rightarrow> None
            | Some (OpTransfer from to e8s) \<Rightarrow>
                (let fromHex = accountIdToHex from;
                     toHex' = accountIdToHex to;
                     amt = showRadix 10 (unat e8s);
                     mem = memoToHex (MemoNat64 (tx_memo block));
                     dir = (if fromHex = targetHex \<and> toHex' = targetHex then Some Self
                            else if toHex' = targetHex then Some Inflow
                            else if fromHex = targetHex then Some Outflow
                            else None)
                 in case dir of
                      None \<Rightarrow> None
                    | Some d \<Rightarrow>
                        Some \<lparr>date_iso = (case ts of
                                            None \<Rightarrow> EmptyDate
                                          | Some t \<Rightarrow> if t \<noteq> 0 then DateOfMillis t
                                                      else EmptyDate),
                              token = symbol,
                              direction = d,
                              amount = formatAmount amt decimals,
                              from_principal = '''',
                              to_principal = '''',
                              block_index = showRadix 10 blockIndex,
                              memo = mem\<rparr>)
            | Some _ \<Rightarrow> None))"

subsection \<open>REST scanner: account matching and row mapping (api_scanner.ts)\<close>

text \<open>
  \<^verbatim>\<open>
  type IcpTx = { block_height: string; ...; transfer_type: "transfer" | "mint" | "burn" | "approve";
                 amount: string; from_account_identifier?: string; to_account_identifier?: string;
                 created_at: number; memo?: string };
  type IcrcTx = { id: string; timestamp: string; op: string;
                  from?: { owner: string; subaccount?: string } | undefined;
                  to?: { owner: string; subaccount?: string } | undefined;
                  amount?: string; symbol?: string; decimals?: number; memo_hex?: string };
  \<close>
  The configuration holds the watched wallet and the matching mode
  (\<open>config.wallet.principal\<close>, \<open>config.wallet.accountIdHex\<close>, \<open>config.wallet.subaccountHex\<close>,
  \<open>config.scanning.strictSubaccountMatch\<close>).
\<close>

record api_config =
  wallet_principal :: string
  wallet_accountIdHex :: string
  wallet_subaccountHex :: string
  strictSubaccountMatch :: bool

record IcrcAccount =
  acct_owner :: string
  acct_subaccount :: "string option"

record IcrcTx =
  icrc_id :: string
  icrc_timestamp :: string
  icrc_op :: string
  icrc_from :: "IcrcAccount option"
  icrc_to :: "IcrcAccount option"
  icrc_amount :: "string option"
  icrc_symbol :: "string option"
  icrc_decimals :: "int option"
  icrc_memo_hex :: "string option"

record IcpTx =
  icp_block_height :: string
  icp_transfer_type :: string
  icp_amount :: string
  icp_from_account_identifier :: "string option"
  icp_to_account_identifier :: "string option"
  icp_created_at :: int
  icp_memo :: "string option"
  icp_icrc1_memo :: "string option"

text \<open>\<open>x || ""\<close> and \<open>x ?? ""\<close> for an optional string.\<close>

definition orEmpty :: "string option \<Rightarrow> string" where
  "orEmpty x = (case x of None \<Rightarrow> '''' | Some s \<Rightarrow> s)"

text \<open>
  \<^verbatim>\<open>
  normalizeSubaccount: (sub?: string): string => {
    const normalized = (sub || "").replace(/^0x/, "").toLowerCase();
    return !normalized || /^0+$/.test(normalized) ? "" : normalized;
  },
  equalSubaccounts: (a?: string, b?: string): boolean => {
    const normA = utils.normalizeSubaccount(a);
    const normB = utils.normalizeSubaccount(b);
    return normA === normB;
  },
  matchesIcrcAccount: (account: { owner?: string; subaccount?: string } | undefined,
                       walletOwner: string, walletSubHex?: string): boolean => {
    if (!account?.owner || account.owner !== walletOwner) return false;
    if (!config.scanning.strictSubaccountMatch) return true;
    return matching.equalSubaccounts(account.subaccount, walletSubHex);
  },
  passesStrictSubaccountFilter: (tx: IcrcTx, walletSubHex?: string): boolean => {
    if (!config.scanning.strictSubaccountMatch || !walletSubHex) return true;
    const normalizedWallet = utils.normalizeSubaccount(walletSubHex);
    const fromMatches = tx.from?.owner === config.wallet.principal &&
      utils.normalizeSubaccount(tx.from?.subaccount) === normalizedWallet;
    const toMatches = tx.to?.owner === config.wallet.principal &&
      utils.normalizeSubaccount(tx.to?.subaccount) === normalizedWallet;
    return fromMatches || toMatches;
  },
  \<close>
\<close>

definition strip0x :: "string \<Rightarrow> string" where
  "strip0x s = (if take 2 s = ''0x'' then drop 2 s else s)"

definition normalizeSubaccount :: "string option \<Rightarrow> string" where
  "normalizeSubaccount sub =
     (let normalized = toLowerCase (strip0x (orEmpty sub))
      in if normalized = [] \<or> list_all (\<lambda>c. c = CHR ''0'') normalized then ''''
         else normalized)"

definition equalSubaccounts :: "string option \<Rightarrow> string option \<Rightarrow> bool" where
  "equalSubaccounts a b = (normalizeSubaccount a = normalizeSubaccount b)"

definition matchesIcrcAccount ::
  "api_config \<Rightarrow> IcrcAccount option \<Rightarrow> string \<Rightarrow> string option \<Rightarrow> bool" where
  "matchesIcrcAccount config account walletOwner walletSubHex =
     (case account of
        None \<Rightarrow> False
      | Some acc \<Rightarrow>
          if acct_owner acc = [] \<or> acct_owner acc \<noteq> walletOwner then False
          else if \<not> strictSubaccountMatch config then True
          else equalSubaccounts (acct_subaccount acc) walletSubHex)"

definition passesStrictSubaccountFilter :: "api_config \<Rightarrow> IcrcTx \<Rightarrow> string option \<Rightarrow> bool" where
  "passesStrictSubaccountFilter config tx walletSubHex =
     (if \<not> strictSubaccountMatch config \<or> orEmpty walletSubHex = [] then True
      else
        (let normalizedWallet = normalizeSubaccount walletSubHex;
             fromMatches =
               (case icrc_from tx of
                  None \<Rightarrow> False
                | Some a \<Rightarrow> acct_owner a = wallet_principal config
                            \<and> normalizeSubaccount (acct_subaccount a) = normalizedWallet);
             toMatches =
               (case icrc_to tx of
                  None \<Rightarrow> False
                | Some a \<Rightarrow> acct_owner a = wallet_principal config
                            \<and> normalizeSubaccount (acct_subaccount a) = normalizedWallet)
         in fromMatches \<or> toMatches))"

text \<open>
  \<^verbatim>\<open>
  fromIcpTransaction: (tx: IcpTx): CsvRow | null => {
    const operation = (tx.transfer_type || "").toLowerCase();
    const fromHex = (tx.from_account_identifier || "").toLowerCase();
    const toHex = (tx.to_account_identifier || "").toLowerCase();
    const accountIdHex = config.wallet.accountIdHex.toLowerCase();
    let direction: Direction | null = null;
    if (operation === "mint") {
      direction = "mint";
    } else if (operation === "burn") {
      direction = "burn";
    } else if (operation === "transfer") {
      if (fromHex === accountIdHex && toHex === accountIdHex) {
        direction = "self";
      } else if (toHex === accountIdHex) {
        direction = "inflow";
      } else if (fromHex === accountIdHex) {
        direction = "outflow";
      }
    }
    if (!direction) return null;
    return {
      date_iso: utils.toISO((tx.created_at ?? 0) * 1000), // seconds to ms
      token: "ICP", direction,
      amount: utils.formatAmount(String(tx.amount ?? "0"), 8),
      from_principal: fromHex, to_principal: toHex,
      block_index: String(tx.block_height),
      memo: String((tx as any).icrc1_memo ?? tx.memo ?? "").toLowerCase(),
    };
  },
  \<close>
  \<open>utils.formatAmount\<close> has the body of \<open>formatAmount\<close> of scanner.ts, applied to
  \<open>raw || "0"\<close>; both give \<open>"0"\<close> for the empty string, so the model uses \<open>formatAmount\<close>.
\<close>

definition fromIcpTransaction :: "api_config \<Rightarrow> IcpTx \<Rightarrow> CsvRow option" where
  "fromIcpTransaction config tx =
     (let operation = toLowerCase (icp_transfer_type tx);
          fromHex = toLowerCase (orEmpty (icp_from_account_identifier tx));
          toHex' = toLowerCase (orEmpty (icp_to_account_identifier tx));
          accountIdHex = toLowerCase (wallet_accountIdHex config);
          dir =
            (if operation = ''mint'' then Some Mint
             else if operation = ''burn'' then Some Burn
             else if operation = ''transfer'' then
               (if fromHex = accountIdHex \<and> toHex' = accountIdHex then Some Self
                else if toHex' = accountIdHex then Some Inflow
                else if fromHex = accountIdHex then Some Outflow
                else None)
             else None)
      in case dir of
           None \<Rightarrow> None
         | Some d \<Rightarrow>
             Some \<lparr>date_iso = ToISOofNumber (icp_created_at tx * 1000),
                   token = ''ICP'',
                   direction = d,
                   amount = formatAmount (icp_amount tx) 8,
                   from_principal = fromHex,
                   to_principal = toHex',
                   block_index = icp_block_height tx,
                   memo = toLowerCase
                            (case icp_icrc1_memo tx of
                               Some m \<Rightarrow> m
                             | None \<Rightarrow> orEmpty (icp_memo tx))\<rparr>)"

text \<open>
  \<^verbatim>\<open>
  fromIcrcTransaction: (tx: IcrcTx): CsvRow | null => {
    const operation = (tx.op || "").toLowerCase();
    const isTransfer = ["transfer", "1xfer", "icrc1_transfer", "xfer"].includes(operation);
    if (!isTransfer) return null;
    let direction: Direction | null = null;
    const fromMatches = matching.matchesIcrcAccount(tx.from, config.wallet.principal);
    const toMatches = matching.matchesIcrcAccount(tx.to, config.wallet.principal);
    if (fromMatches && toMatches) {
      direction = "self";
    } else if (toMatches) {
      direction = "inflow";
    } else if (fromMatches) {
      direction = "outflow";
    }
    if (!direction) return null;
    return {
      date_iso: utils.toISO(tx.timestamp),
      token: tx.symbol || "TOKEN", direction,
      amount: utils.formatAmount(String(tx.amount ?? "0"), tx.decimals ?? 8),
      from_principal: tx.from?.owner || "", to_principal: tx.to?.owner || "",
      block_index: String(tx.id),
      memo: (tx.memo_hex || "").toLowerCase(),
    };
  },
  \<close>
  The two calls of \<open>matchesIcrcAccount\<close> pass no \<open>walletSubHex\<close>: the parameter is
  \<open>undefined\<close> there.
\<close>

definition fromIcrcTransaction :: "api_config \<Rightarrow> IcrcTx \<Rightarrow> CsvRow option" where
  "fromIcrcTransaction config tx =
     (let operation = toLowerCase (icrc_op tx);
          isTransfer = (operation \<in> set [''transfer'', ''1xfer'', ''icrc1_transfer'', ''xfer''])
      in if \<not> isTransfer then None
         else
           (let fromMatches = matchesIcrcAccount config (icrc_from tx) (wallet_principal config) None;
                toMatches = matchesIcrcAccount config (icrc_to tx) (wallet_principal config) None;
                dir = (if fromMatches \<and> toMatches then Some Self
                       else if toMatches then Some Inflow
                       else if fromMatches then Some Outflow
                       else None)
            in case dir of
                 None \<Rightarrow> None
               | Some d \<Rightarrow>
                   Some \<lparr>date_iso = ToISOofString (icrc_timestamp tx),
                         token = strOr (orEmpty (icrc_symbol tx)) ''TOKEN'',
                         direction = d,
                         amount = formatAmount
                                    (case icrc_amount tx of None \<Rightarrow> ''0'' | Some a \<Rightarrow> a)
                                    (case icrc_decimals tx of None \<Rightarrow> 8 | Some n \<Rightarrow> n),
                         from_principal =
                           (case icrc_from tx of None \<Rightarrow> '''' | Some a \<Rightarrow> acct_owner a),
                         to_principal =
                           (case icrc_to tx of None \<Rightarrow> '''' | Some a \<Rightarrow> acct_owner a),
                         block_index = icrc_id tx,
                         memo = toLowerCase (orEmpty (icrc_memo_hex tx))\<rparr>))"

text \<open>
  The sanity check of the same file classifies with the wallet's sub-identity passed on:
  \<^verbatim>\<open>
  const fromMatches = matching.matchesIcrcAccount(tx.from, config.wallet.principal,
                                                  config.wallet.subaccountHex);
  const toMatches = matching.matchesIcrcAccount(tx.to, config.wallet.principal,
                                                config.wallet.subaccountHex);
  let direction = "none";
  if (fromMatches && toMatches) direction = "self";
  else if (toMatches) direction = "inflow";
  else if (fromMatches) direction = "outflow";
  else direction = "mint";
  \<close>
  and the scan loop of \<open>scanIcrcToken\<close> filters before it maps:
  \<^verbatim>\<open>
  for (const tx of transactions) {
    if (!matching.passesStrictSubaccountFilter(tx, config.wallet.subaccountHex)) continue;
    const row = csvMapping.fromIcrcTransaction(tx);
    if (row) { csv.appendRow(config.output.csvPath, row); count++; }
  }
  \<close>
\<close>

definition checkIcrcTransaction_direction :: "api_config \<Rightarrow> IcrcTx \<Rightarrow> string" where
  "checkIcrcTransaction_direction config tx =
     (let fromMatches = matchesIcrcAccount config (icrc_from tx) (wallet_principal config)
                          (Some (wallet_subaccountHex config));
          toMatches = matchesIcrcAccount config (icrc_to tx) (wallet_principal config)
                        (Some (wallet_subaccountHex config))
      in if fromMatches \<and> toMatches then ''self''
         else if toMatches then ''inflow''
         else if fromMatches then ''outflow''
         else ''mint'')"

definition scanIcrcToken_row :: "api_config \<Rightarrow> IcrcTx \<Rightarrow> CsvRow option" where
  "scanIcrcToken_row config tx =
     (if \<not> passesStrictSubaccountFilter config tx (Some (wallet_subaccountHex config)) then None
      else fromIcrcTransaction config tx)"

subsection \<open>The ledger as the scanner sees it\<close>

text \<open>
  The scanner reaches the ledger through two query calls, which may fail (a rejected
  promise is \<open>Inl\<close>):
  \<^verbatim>\<open>
  query_blocks({start, length}) -> { chain_length, blocks, first_block_index, archived_blocks }
  archive.get_blocks({start, length}) -> Ok { blocks } | Err ...
  \<close>
  An archived range carries the callback of its archive canister; the model reaches the
  archive by the range's \<open>start\<close> and \<open>length\<close>. \<open>None\<close> is the \<open>Err\<close> answer of an
  archive.
\<close>

record ArchivedRange =
  ar_start :: nat
  ar_length :: nat

record IcpPage =
  chain_length :: nat
  page_blocks :: "IcpBlock list"
  first_block_index :: nat
  archived_blocks :: "ArchivedRange list"

record icp_ledger =
  query_blocks :: "int \<Rightarrow> int \<Rightarrow> js_error + IcpPage"
  archive_get_blocks :: "nat \<Rightarrow> nat \<Rightarrow> js_error + IcpBlock list option"

text \<open>Blocks paired with their indices \<open>first + i\<close>.\<close>

definition indexed :: "nat \<Rightarrow> IcpBlock list \<Rightarrow> (nat \<times> IcpBlock) list" where
  "indexed first bs = map (\<lambda>i. (first + i, bs ! i)) [0 ..< length bs]"

subsection \<open>Parallel scan of the native ledger (\<open>fetchIcpBlocks\<close>, \<open>scanIcpLedger\<close>, scanner.ts)\<close>

text \<open>
  \<^verbatim>\<open>
  async function fetchIcpBlocks(actor, agent, _canisterId, start, length, limitArchive) {
    const out: IcpFetched[] = [];
    const res = await actor.query_blocks({ start, length });
    const blocks = (res?.blocks || []) as any[];
    const firstIdx = res?.first_block_index ?? start;
    for (let i = 0; i < blocks.length; i++) {
      out.push({ index: firstIdx + BigInt(i), block: blocks[i] });
    }
    const archived = (res?.archived_blocks || []) as Array<...>;
    await Promise.all(
      archived.map((ar) =>
        limitArchive(async () => {
          ...
          const r = await (archive as any)[method || "get_blocks"]({ start: ar.start, length: ar.length });
          const ok = (r && (r.Ok || r.ok)) as { blocks: any[] } | undefined;
          const arr = ok?.blocks || [];
          for (let i = 0; i < arr.length; i++) {
            out.push({ index: BigInt(ar.start) + BigInt(i), block: arr[i] });
          }
        })
      )
    );
    return out;
  }
  \<close>
  The archive calls run concurrently; the model takes them in the order of the list. A
  failing call rejects \<open>Promise.all\<close> and with it the whole fetch.
\<close>

fun fetchArchives :: "icp_ledger \<Rightarrow> ArchivedRange list \<Rightarrow> js_error + (nat \<times> IcpBlock) list" where
  "fetchArchives ledger [] = Inr []"
| "fetchArchives ledger (ar # ars) =
     (case archive_get_blocks ledger (ar_start ar) (ar_length ar) of
        Inl e \<Rightarrow> Inl e
      | Inr ok \<Rightarrow>
          (case fetchArchives ledger ars of
             Inl e \<Rightarrow> Inl e
           | Inr rest \<Rightarrow>
               Inr (indexed (ar_start ar) (case ok of None \<Rightarrow> [] | Some arr \<Rightarrow> arr) @ rest)))"

definition fetchIcpBlocks :: "icp_ledger \<Rightarrow> int \<Rightarrow> int \<Rightarrow> js_error + (nat \<times> IcpBlock) list" where
  "fetchIcpBlocks ledger start len =
     (case query_blocks ledger start len of
        Inl e \<Rightarrow> Inl e
      | Inr res \<Rightarrow>
          (case fetchArchives ledger (archived_blocks res) of
             Inl e \<Rightarrow> Inl e
           | Inr arch \<Rightarrow> Inr (indexed (first_block_index res) (page_blocks res) @ arch)))"

text \<open>
  \<^verbatim>\<open>
  const rows: CsvRow[] = [];
  let segDone = 0; let blocksSeen = 0; let matches = 0;
  ...
  await Promise.all(
    segs.map((seg) =>
      limit(async () => {
        const label = ...;
        try {
          const fetched = await fetchIcpBlocks(actor, agent, canisterId, seg.start, seg.length, limitArchive);
          for (const { index, block } of fetched) handleBlock(block, index);
          blocksSeen += fetched.length;
          segDone++;
          if (segDone % PROGRESS_EVERY === 0 || segDone === segs.length) { console.log(...); }
        } catch (e) {
          segDone++;
          console.error(`  [ICP] ${label} ERROR:`, e);
        }
      })
    )
  );
  return rows;
  \<close>
  The state of a scan is the variables the segment tasks share, with the errors written by
  \<open>console.error\<close>. A task suspends only at its \<open>await\<close>, so what follows the fetch runs
  in one piece: a scan is the tasks' second halves, one after the other, in the order in
  which their fetches complete. That order is the list \<open>scanSegments\<close> is given.
\<close>

record scan_state =
  rows :: "CsvRow list"
  segDone :: nat
  blocksSeen :: nat
  matches :: nat
  errors :: "js_error list"

definition initialScan :: scan_state where
  "initialScan = \<lparr>rows = [], segDone = 0, blocksSeen = 0, matches = 0, errors = []\<rparr>"

definition pushRow :: "scan_state \<Rightarrow> CsvRow option \<Rightarrow> scan_state" where
  "pushRow st r =
     (case r of
        None \<Rightarrow> st
      | Some row \<Rightarrow> st\<lparr>rows := rows st @ [row], matches := matches st + 1\<rparr>)"

definition processSegment ::
  "scan_window \<Rightarrow> string \<Rightarrow> string \<Rightarrow> int \<Rightarrow> icp_ledger \<Rightarrow> scan_state \<Rightarrow> segment \<Rightarrow> scan_state" where
  "processSegment win icpAccountIdHex symbol decimals ledger st seg =
     (case fetchIcpBlocks ledger (seg_start seg) (seg_length seg) of
        Inr fetched \<Rightarrow>
          (let st' = foldl (\<lambda>s (index, block).
                              pushRow s (handleBlock win icpAccountIdHex symbol decimals block index))
                       st fetched
           in st'\<lparr>blocksSeen := blocksSeen st' + length fetched, segDone := segDone st' + 1\<rparr>)
      | Inl e \<Rightarrow> st\<lparr>segDone := segDone st + 1, errors := errors st @ [e]\<rparr>)"

definition scanSegments ::
  "scan_window \<Rightarrow> string \<Rightarrow> string \<Rightarrow> int \<Rightarrow> icp_ledger \<Rightarrow> segment list \<Rightarrow> scan_state" where
  "scanSegments win icpAccountIdHex symbol decimals ledger completed =
     foldl (processSegment win icpAccountIdHex symbol decimals ledger) initialScan completed"

text \<open>
  The whole scan: the chain length, the window, the segments, and the tasks in the order
  \<open>sched\<close> in which they complete. \<open>None\<close> is a scan that never returns.
  \<^verbatim>\<open>
  let chainLength = 0n;
  try {
    const meta = await (actor as any).query_blocks({ start: 0n, length: 0n });
    chainLength = meta.chain_length;
  } catch (e) {
    console.error(`  Failed to get chain length:`, e);
    return [];
  }
  const endIndex = chainLength - 1n;
  const startIndex =
    endIndex > BigInt(MAX_BLOCKS_PER_LEDGER) ? endIndex - BigInt(MAX_BLOCKS_PER_LEDGER) : 0n;
  const segs = buildSegments(startIndex, endIndex, PAGE);
  \<close>
\<close>

definition scanIcpLedger ::
  "scan_window \<Rightarrow> int \<Rightarrow> int \<Rightarrow> (segment list \<Rightarrow> segment list) \<Rightarrow> string \<Rightarrow> string \<Rightarrow> int
     \<Rightarrow> icp_ledger \<Rightarrow> scan_state option" where
  "scanIcpLedger win maxBlocks page sched icpAccountIdHex symbol decimals ledger =
     (case query_blocks ledger 0 0 of
        Inl e \<Rightarrow> Some (initialScan\<lparr>errors := [e]\<rparr>)
      | Inr meta \<Rightarrow>
          (let (startIndex, endIndex) = scanWindow (int (chain_length meta)) maxBlocks
           in case buildSegments startIndex endIndex page of
                None \<Rightarrow> None
              | Some segs \<Rightarrow>
                  Some (scanSegments win icpAccountIdHex symbol decimals ledger (sched segs))))"

subsection \<open>Sequential scan of the native ledger (\<open>scanIcpLedger\<close>, first scanner of scanner.ts)\<close>

text \<open>
  The first scanner of the file has no segment tasks: one loop fetches a page, handles its
  blocks and its archived ranges, and goes on to the page below.
  \<^verbatim>\<open>
  const PAGE = 1000;
  ...
  for (let cursor = endIndex; cursor >= startIndex && scanned < MAX_BLOCKS_PER_LEDGER; ) {
    const length = BigInt(Math.min(PAGE, Number(cursor - startIndex + 1n)));
    const start = cursor - (length - 1n);
    try {
      const res = await ledgerActor.query_blocks({ start, length });
      const blocks = res.blocks || [];
      for (let i = 0; i < blocks.length; i++) {
        const block = blocks[i];
        const blockIndex = res.first_block_index + BigInt(i);
        const timestamp = n64ToMillis((block as { timestamp?: unknown }).timestamp);
        // Check cutoff date
        if (timestamp && timestamp > CUTOFF_DATE.getTime()) continue;
        const date_iso = timestamp ? new Date(timestamp).toISOString() : "";
        const tx = ...;
        if (!tx.operation) continue;
        const opKey = Object.keys(tx.operation)[0];
        if (!opKey) continue;
        const op = tx.operation[opKey] as {...};
        if (opKey === "Transfer") {
          const fromHex = accountIdToHex(op.from || []);
          const toHex = accountIdToHex(op.to || []);
          const amount = (op.amount?.e8s || 0n).toString();
          const memo = memoToHex(tx.memo);
          let direction: CsvRow["direction"] | null = null;
          const matchesFrom = fromHex === icpAccountIdHex;
          const matchesTo = toHex === icpAccountIdHex;
          if (matchesFrom && matchesTo) direction = "self";
          else if (matchesTo) direction = "inflow";
          else if (matchesFrom) direction = "outflow";
          if (direction) { rows.push({ date_iso, token: symbol, direction,
              amount: formatAmount(amount, decimals), from_principal: "", to_principal: "",
              block_index: blockIndex.toString(), memo }); }
        }
      }
      // Process archived blocks
      for (const range of (res as any).archived_blocks ?? []) {
        if (scanned >= MAX_BLOCKS_PER_LEDGER) break;
        ...
        const r = await (archive as any)[method || "get_blocks"]({ start: range.start, length: range.length });
        const ok = (r && (r.Ok || r.ok)) as { blocks: any[] } | undefined;
        if (!ok) continue;
        for (let i = 0; i < ok.blocks.length && scanned < MAX_BLOCKS_PER_LEDGER; i++) {
          const block = ok.blocks[i];
          const blockIndex = BigInt(range.start) + BigInt(i); // start+i per spec
          const timestamp = n64ToMillis((block as any).timestamp);
          if (timestamp && timestamp > CUTOFF_DATE.getTime()) continue;
          const date_iso = timestamp ? new Date(timestamp).toISOString() : "";
          ...
          const opKey = tx?.operation && Object.keys(tx.operation)[0];
          if (opKey !== "Transfer") continue;
          ... (the same direction and row as above)
          scanned++;
        }
      }
      scanned += blocks.length;
      cursor = start - 1n;
    } catch (e) {
      console.error(`  Failed to get blocks:`, e);
      break;
    }
  }
  return rows;
  \<close>
  Both block loops build the same row; \<open>seqBlockRow\<close> is that body, and \<open>seqCounted\<close>
  tells whether the body of the archive loop reaches its \<open>scanned++\<close>.
\<close>

definition PAGE_seq :: int where
  "PAGE_seq = 1000"

definition seqBlockRow :: "int \<Rightarrow> string \<Rightarrow> string \<Rightarrow> int \<Rightarrow> nat \<times> IcpBlock \<Rightarrow> CsvRow option" where
  "seqBlockRow cutoff icpAccountIdHex symbol decimals ib =
     (let blockIndex = fst ib; block = snd ib;
          timestamp = n64ToMillis (Some (timestamp_nanos block))
      in if (case timestamp of None \<Rightarrow> False | Some t \<Rightarrow> t \<noteq> 0 \<and> t > cutoff) then None
         else
           (case tx_operation block of
              Some (OpTransfer from to e8s) \<Rightarrow>
                (let fromHex = accountIdToHex from;
                     toHex' = accountIdToHex to;
                     amt = showRadix 10 (unat e8s);
                     mem = memoToHex (MemoNat64 (tx_memo block));
                     matchesFrom = (fromHex = icpAccountIdHex);
                     matchesTo = (toHex' = icpAccountIdHex);
                     dir = (if matchesFrom \<and> matchesTo then Some Self
                            else if matchesTo then Some Inflow
                            else if matchesFrom then Some Outflow
                            else None)
                 in case dir of
                      None \<Rightarrow> None
                    | Some d \<Rightarrow>
                        Some \<lparr>date_iso = (case timestamp of
                                            None \<Rightarrow> EmptyDate
                                          | Some t \<Rightarrow> if t \<noteq> 0 then DateOfMillis t
                                                      else EmptyDate),
                              token = symbol,
                              direction = d,
                              amount = formatAmount amt decimals,
                              from_principal = '''',
                              to_principal = '''',
                              block_index = showRadix 10 blockIndex,
                              memo = mem\<rparr>)
            | _ \<Rightarrow> None))"

definition seqCounted :: "int \<Rightarrow> IcpBlock \<Rightarrow> bool" where
  "seqCounted cutoff block =
     (let timestamp = n64ToMillis (Some (timestamp_nanos block))
      in \<not> (case timestamp of None \<Rightarrow> False | Some t \<Rightarrow> t \<noteq> 0 \<and> t > cutoff)
         \<and> (case tx_operation block of Some (OpTransfer from to e8s) \<Rightarrow> True | _ \<Rightarrow> False))"

text \<open>The state of the sequential scan: \<open>rows\<close>, \<open>scanned\<close> and the errors written.\<close>

record seq_state =
  seq_rows :: "CsvRow list"
  scanned :: int
  seq_errors :: "js_error list"

definition seqPush :: "seq_state \<Rightarrow> CsvRow option \<Rightarrow> seq_state" where
  "seqPush st r = (case r of None \<Rightarrow> st | Some row \<Rightarrow> st\<lparr>seq_rows := seq_rows st @ [row]\<rparr>)"

fun seqArchiveBlocks ::
  "int \<Rightarrow> int \<Rightarrow> string \<Rightarrow> string \<Rightarrow> int \<Rightarrow> (nat \<times> IcpBlock) list \<Rightarrow> seq_state \<Rightarrow> seq_state" where
  "seqArchiveBlocks maxBlocks cutoff icpAccountIdHex symbol decimals [] st = st"
| "seqArchiveBlocks maxBlocks cutoff icpAccountIdHex symbol decimals (ib # ibs) st =
     (if scanned st < maxBlocks then
        (let st' = seqPush st (seqBlockRow cutoff icpAccountIdHex symbol decimals ib);
             st'' = (if seqCounted cutoff (snd ib) then st'\<lparr>scanned := scanned st' + 1\<rparr> else st')
         in seqArchiveBlocks maxBlocks cutoff icpAccountIdHex symbol decimals ibs st'')
      else st)"

text \<open>The loop over the archived ranges: \<open>Inl\<close> when a call throws, with the state so far.\<close>

fun seqArchives ::
  "int \<Rightarrow> int \<Rightarrow> string \<Rightarrow> string \<Rightarrow> int \<Rightarrow> icp_ledger \<Rightarrow> ArchivedRange list \<Rightarrow> seq_state
     \<Rightarrow> (js_error \<times> seq_state) + seq_state" where
  "seqArchives maxBlocks cutoff icpAccountIdHex symbol decimals ledger [] st = Inr st"
| "seqArchives maxBlocks cutoff icpAccountIdHex symbol decimals ledger (ar # ars) st =
     (if scanned st \<ge> maxBlocks then Inr st
      else
        (case archive_get_blocks ledger (ar_start ar) (ar_length ar) of
           Inl e \<Rightarrow> Inl (e, st)
         | Inr None \<Rightarrow>
             seqArchives maxBlocks cutoff icpAccountIdHex symbol decimals ledger ars st
         | Inr (Some blocks) \<Rightarrow>
             seqArchives maxBlocks cutoff icpAccountIdHex symbol decimals ledger ars
               (seqArchiveBlocks maxBlocks cutoff icpAccountIdHex symbol decimals
                  (indexed (ar_start ar) blocks) st)))"

text \<open>The body of the \<open>try\<close> for one page.\<close>

definition seqPage ::
  "int \<Rightarrow> int \<Rightarrow> string \<Rightarrow> string \<Rightarrow> int \<Rightarrow> icp_ledger \<Rightarrow> int \<Rightarrow> int \<Rightarrow> seq_state
     \<Rightarrow> (js_error \<times> seq_state) + seq_state" where
  "seqPage maxBlocks cutoff icpAccountIdHex symbol decimals ledger start len st =
     (case query_blocks ledger start len of
        Inl e \<Rightarrow> Inl (e, st)
      | Inr res \<Rightarrow>
          (let st' = foldl (\<lambda>s ib. seqPush s (seqBlockRow cutoff icpAccountIdHex symbol decimals ib))
                       st (indexed (first_block_index res) (page_blocks res))
           in case seqArchives maxBlocks cutoff icpAccountIdHex symbol decimals ledger
                     (archived_blocks res) st' of
                Inl err \<Rightarrow> Inl err
              | Inr st'' \<Rightarrow> Inr (st''\<lparr>scanned := scanned st'' + int (length (page_blocks res))\<rparr>)))"

function seqLoop ::
  "int \<Rightarrow> int \<Rightarrow> string \<Rightarrow> string \<Rightarrow> int \<Rightarrow> icp_ledger \<Rightarrow> int \<Rightarrow> int \<Rightarrow> seq_state \<Rightarrow> seq_state" where
  "seqLoop maxBlocks cutoff icpAccountIdHex symbol decimals ledger startIndex cursor st =
     (if cursor \<ge> startIndex \<and> scanned st < maxBlocks then
        (let len = min PAGE_seq (cursor - startIndex + 1);
             start = cursor - (len - 1)
         in case seqPage maxBlocks cutoff icpAccountIdHex symbol decimals ledger start len st of
              Inl (e, st') \<Rightarrow> st'\<lparr>seq_errors := seq_errors st' @ [e]\<rparr>
            | Inr st' \<Rightarrow>
                seqLoop maxBlocks cutoff icpAccountIdHex symbol decimals ledger startIndex
                  (start - 1) st')
      else st)"
  by pat_completeness auto
termination
  by (relation "measure (\<lambda>(maxBlocks, cutoff, icpAccountIdHex, symbol, decimals, ledger,
        startIndex, cursor, st). nat (cursor - startIndex + 1))")
     (auto simp: PAGE_seq_def)

declare seqLoop.simps [simp del]

definition scanIcpLedger_seq ::
  "int \<Rightarrow> int \<Rightarrow> string \<Rightarrow> string \<Rightarrow> int \<Rightarrow> icp_ledger \<Rightarrow> seq_state" where
  "scanIcpLedger_seq maxBlocks cutoff icpAccountIdHex symbol decimals ledger =
     (case query_blocks ledger 0 1 of
        Inl e \<Rightarrow> \<lparr>seq_rows = [], scanned = 0, seq_errors = [e]\<rparr>
      | Inr res \<Rightarrow>
          (let (startIndex, endIndex) = scanWindow (int (chain_length res)) maxBlocks
           in seqLoop maxBlocks cutoff icpAccountIdHex symbol decimals ledger startIndex endIndex
                \<lparr>seq_rows = [], scanned = 0, seq_errors = []\<rparr>))"

text \<open>
  What one segment contributes to a parallel scan: the rows of its matching blocks when its
  fetch succeeds, and the error when it fails.
\<close>

definition segmentRows ::
  "scan_window \<Rightarrow> string \<Rightarrow> string \<Rightarrow> int \<Rightarrow> icp_ledger \<Rightarrow> segment \<Rightarrow> CsvRow list" where
  "segmentRows win icpAccountIdHex symbol decimals ledger seg =
     (case fetchIcpBlocks ledger (seg_start seg) (seg_length seg) of
        Inr fetched \<Rightarrow>
          List.map_filter (\<lambda>(index, block). handleBlock win icpAccountIdHex symbol decimals block index)
            fetched
      | Inl e \<Rightarrow> [])"

definition segmentErrors :: "icp_ledger \<Rightarrow> segment \<Rightarrow> js_error list" where
  "segmentErrors ledger seg =
     (case fetchIcpBlocks ledger (seg_start seg) (seg_length seg) of
        Inr fetched \<Rightarrow> []
      | Inl e \<Rightarrow> [e])"

subsection \<open>Example inputs\<close>

text \<open>
  The defaults of the scanners: the watched principal and its account identifier on the
  native ledger, as text and as bytes. With them, a sub-identity of 32 bytes that is not
  the default one, and the account identifier of some other party.
\<close>

definition watchedPrincipal :: string where
  "watchedPrincipal = ''ijsei-nrxkc-26l5m-cj5ki-tkdti-7befc-6lhjr-ofope-4szgt-hmnvc-aqe''"

definition watchedIdHex :: string where
  "watchedIdHex = ''e71fb5d09ec4082185c469d95ea1628e1fd5a6b3302cc7ed001df577995e9297''"

definition watchedId :: "byte list" where
  "watchedId =
     [231, 31, 181, 208, 158, 196, 8, 33, 133, 196, 105, 217, 94, 161, 98, 142,
      31, 213, 166, 179, 48, 44, 199, 237, 0, 29, 245, 119, 153, 94, 146, 151]"

definition otherIdHex :: string where
  "otherIdHex = ''1111111111111111111111111111111111111111111111111111111111111111''"

definition otherId :: "byte list" where
  "otherId =
     [17, 17, 17, 17, 17, 17, 17, 17, 17, 17, 17, 17, 17, 17, 17, 17,
      17, 17, 17, 17, 17, 17, 17, 17, 17, 17, 17, 17, 17, 17, 17, 17]"

definition subOne :: string where
  "subOne = ''0000000000000000000000000000000000000000000000000000000000000001''"

text \<open>
  A REST-scanner configuration with the strict mode on and the wallet sub-identity
  \<open>subOne\<close>, and a transfer between two accounts of that wallet and sub-identity.
\<close>

definition strictExample :: api_config where
  "strictExample = \<lparr>wallet_principal = watchedPrincipal, wallet_accountIdHex = watchedIdHex,
        wallet_subaccountHex = subOne, strictSubaccountMatch = True\<rparr>"

definition selfTransfer :: IcrcTx where
  "selfTransfer = \<lparr>icrc_id = ''7'', icrc_timestamp = ''2025-07-01T00:00:00Z'', icrc_op = ''transfer'',
        icrc_from = Some \<lparr>acct_owner = watchedPrincipal, acct_subaccount = Some subOne\<rparr>,
        icrc_to = Some \<lparr>acct_owner = watchedPrincipal, acct_subaccount = Some subOne\<rparr>,
        icrc_amount = Some ''5'', icrc_symbol = Some ''ckBTC'', icrc_decimals = Some 8,
        icrc_memo_hex = None\<rparr>"

text \<open>
  The default window of the parallel scanner starts at 2025-06-01T00:00:00Z. Two blocks of
  the native ledger: a transfer to the watched account stamped with the epoch (zero
  nanoseconds), and a mint to it inside the window.
\<close>

definition window2025 :: scan_window where
  "window2025 = \<lparr>FROM_MS = 1748736000000, TO_MS = 1767225600000\<rparr>"

definition epochBlock :: IcpBlock where
  "epochBlock = \<lparr>timestamp_nanos = 0, tx_memo = 0,
                  tx_operation = Some (OpTransfer otherId watchedId 5000000)\<rparr>"

definition mintBlock :: IcpBlock where
  "mintBlock = \<lparr>timestamp_nanos = 1751328000000000000, tx_memo = 0,
                 tx_operation = Some (OpMint watchedId 5000000)\<rparr>"

text \<open>A mint reported by the REST interface, to an account that is not the watched one.\<close>

definition mintTx :: IcpTx where
  "mintTx = \<lparr>icp_block_height = ''100'', icp_transfer_type = ''mint'', icp_amount = ''5000000'',
              icp_from_account_identifier = None, icp_to_account_identifier = Some otherIdHex,
              icp_created_at = 1751328000, icp_memo = None, icp_icrc1_memo = None\<rparr>"

text \<open>
  A ledger of 2000 blocks whose upper page cannot be fetched and whose lower page holds a
  transfer to the watched account, stamped 2025-07-01.
\<close>

definition julyTransfer :: IcpBlock where
  "julyTransfer = \<lparr>timestamp_nanos = 1751328000000000000, tx_memo = 0,
                    tx_operation = Some (OpTransfer otherId watchedId 5000000)\<rparr>"

definition flakyLedger :: icp_ledger where
  "flakyLedger =
     \<lparr>query_blocks = (\<lambda>start len.
          if start = 1000 then Inl NetworkError
          else Inr \<lparr>chain_length = 2000,
                    page_blocks = (if start = 0 \<and> len = 1000 then [julyTransfer] else []),
                    first_block_index = nat start,
                    archived_blocks = []\<rparr>),
      archive_get_blocks = (\<lambda>start len. Inr None)\<rparr>"

definition julyRow :: CsvRow where
  "julyRow = \<lparr>date_iso = DateOfMillis 1751328000000, token = ''ICP'', direction = Inflow,
               amount = ''0.05'', from_principal = '''', to_principal = '''',
               block_index = ''0'', memo = ''''\<rparr>"

section \<open>Verified properties\<close>

subsection \<open>Digits and padding\<close>

lemma showRadix_small: "n < r \<Longrightarrow> showRadix r n = [digitChar n]"
  by (subst showRadix.simps) simp

lemma showRadix_big:
  "2 \<le> r \<Longrightarrow> r \<le> n \<Longrightarrow> showRadix r n = showRadix r (n div r) @ [digitChar (n mod r)]"
  by (subst showRadix.simps) simp

lemma digitVal_digitChar_all: "\<forall>d \<in> set [0..<16]. digitVal (digitChar d) = d"
  by code_simp

lemma digitVal_digitChar: "d < 16 \<Longrightarrow> digitVal (digitChar d) = d"
  using digitVal_digitChar_all by simp

lemma readRadix_snoc: "readRadix r (s @ [c]) = readRadix r s * r + digitVal c"
  by (simp add: readRadix_def)

lemma readRadix_showRadix: "2 \<le> r \<Longrightarrow> r \<le> 16 \<Longrightarrow> readRadix r (showRadix r n) = n"
proof (induction r n rule: showRadix.induct)
  case (1 r n)
  show ?case
  proof (cases "n < r")
    case True
    with "1.prems" have "n < 16" by simp
    with True show ?thesis
      by (simp add: showRadix_small readRadix_def digitVal_digitChar)
  next
    case False
    with 1 have ih: "readRadix r (showRadix r (n div r)) = n div r" by simp
    from "1.prems" have "n mod r < r" by simp
    with "1.prems" have "n mod r < 16" by linarith
    with False "1.prems" ih show ?thesis
      by (simp add: showRadix_big readRadix_snoc digitVal_digitChar)
  qed
qed

lemma length_showRadix: "2 \<le> r \<Longrightarrow> n < r ^ k \<Longrightarrow> 0 < k \<Longrightarrow> length (showRadix r n) \<le> k"
proof (induction r n arbitrary: k rule: showRadix.induct)
  case (1 r n)
  show ?case
  proof (cases "n < r")
    case True
    with "1.prems" show ?thesis by (simp add: showRadix_small)
  next
    case False
    from "1.prems" obtain j where k: "k = Suc j" by (cases k) auto
    with False "1.prems" have "0 < j" by (cases j) auto
    from k "1.prems" have "n div r < r ^ j"
      by (simp add: less_mult_imp_div_less mult.commute)
    with "1.IH"[of j] False "1.prems" \<open>0 < j\<close> have "length (showRadix r (n div r)) \<le> j" by simp
    with False "1.prems" k show ?thesis by (simp add: showRadix_big)
  qed
qed

lemma digitChar_hex: "d < 16 \<Longrightarrow> lowerHexChar (digitChar d)"
proof -
  have "\<forall>d \<in> set [0..<16]. lowerHexChar (digitChar d)" by code_simp
  then show "d < 16 \<Longrightarrow> lowerHexChar (digitChar d)" by simp
qed

lemma lowerHex_showRadix16: "lowerHex (showRadix 16 n)"
proof (induction "16::nat" n rule: showRadix.induct)
  case (1 n)
  show ?case
  proof (cases "n < 16")
    case True
    then show ?thesis using digitChar_hex[of n]
      by (simp add: showRadix_small lowerHex_def)
  next
    case False
    have "n mod 16 < 16" by simp
    with 1 False show ?thesis using digitChar_hex[of "n mod 16"]
      by (simp add: showRadix_big lowerHex_def)
  qed
qed

lemma readRadix_zeros: "foldl (\<lambda>a c. a * r + digitVal c) 0 (replicate m CHR ''0'') = 0"
  by (induction m) (simp_all add: digitVal_def replicate_append_same)

lemma readRadix_padStart: "readRadix r (padStart k CHR ''0'' s) = readRadix r s"
  by (simp add: readRadix_def padStart_def readRadix_zeros)

lemma length_padStart: "length s \<le> k \<Longrightarrow> length (padStart k c s) = k"
  by (simp add: padStart_def)

lemma lowerHexChar_0: "lowerHexChar CHR ''0''"
  by (simp add: lowerHexChar_def)

lemma lowerHex_padStart: "lowerHex s \<Longrightarrow> lowerHex (padStart k CHR ''0'' s)"
  using lowerHexChar_0 by (auto simp: padStart_def lowerHex_def list_all_iff)

lemma concat_chunks:
  assumes "\<And>x. length (f x) = k" "i < length xs"
  shows "take k (drop (k * i) (concat (map f xs))) = f (xs ! i)"
  using assms(2)
proof (induction xs arbitrary: i)
  case Nil
  then show ?case by simp
next
  case (Cons x xs)
  show ?case
  proof (cases i)
    case 0
    then show ?thesis using assms(1)[of x] by simp
  next
    case (Suc j)
    with Cons.prems have "j < length xs" by simp
    from Cons.IH[OF this] Suc assms(1)[of x] show ?thesis by simp
  qed
qed

lemma length_concat_chunks:
  assumes "\<And>x. length (f x) = k"
  shows "length (concat (map f xs)) = k * length xs"
  by (induction xs) (simp_all add: assms)

subsection \<open>The example inputs evaluated\<close>

lemma toHex_watchedId: "toHex watchedId = watchedIdHex"
  by (simp add: toHex_def watchedId_def watchedIdHex_def padStart_def showRadix_big
      showRadix_small digitChar_def)

lemma toHex_otherId: "toHex otherId = otherIdHex"
  by (simp add: toHex_def otherId_def otherIdHex_def padStart_def showRadix_big
      showRadix_small digitChar_def)

lemma lower_watchedIdHex: "toLowerCase watchedIdHex = watchedIdHex"
  by (simp add: toLowerCase_def toLowerChar_def watchedIdHex_def)

lemma otherIdHex_neq: "otherIdHex \<noteq> watchedIdHex"
  by (simp add: otherIdHex_def watchedIdHex_def)

lemma watchedPrincipal_nonempty: "watchedPrincipal \<noteq> []"
  by (simp add: watchedPrincipal_def)

lemma normalizeSubaccount_subOne: "normalizeSubaccount (Some subOne) = subOne"
  by (simp add: normalizeSubaccount_def strip0x_def orEmpty_def toLowerCase_def toLowerChar_def
      subOne_def)

lemma normalizeSubaccount_None: "normalizeSubaccount None = ''''"
  by (simp add: normalizeSubaccount_def orEmpty_def strip0x_def toLowerCase_def)

lemma subOne_nonempty: "subOne \<noteq> []"
  by (simp add: subOne_def)

subsection \<open>Sub-identity normalisation\<close>

text \<open>
  C6. For every 32-byte sub-identity \<open>s\<close>, \<open>normalizeSub s\<close> is \<open>null\<close> exactly when
  every byte of \<open>s\<close> is zero, and every other 32-byte sequence is returned unchanged.
\<close>

theorem normalizeSub_32:
  assumes "length s = 32"
  shows "(normalizeSub (Some s) = None \<longleftrightarrow> (\<forall>b \<in> set s. b = 0))
       \<and> (\<not> (\<forall>b \<in> set s. b = 0) \<longrightarrow> normalizeSub (Some s) = Some s)"
  using assms by (auto simp: normalizeSub_def list_all_iff)

theorem normalizeSub_32_witness:
  "length (replicate 31 (0::byte) @ [7]) = 32
   \<and> normalizeSub (Some (replicate 31 0 @ [7])) = Some (replicate 31 0 @ [7])
   \<and> normalizeSub (Some (replicate 32 0)) = None"
  using normalizeSub_32 [of "replicate 31 0 @ [7]"] normalizeSub_32 [of "replicate 32 0"]
  by simp

subsection \<open>Memo rendering\<close>

lemma hex_u64:
  fixes w :: "64 word"
  defines "s \<equiv> padStart 16 CHR ''0'' (showRadix 16 (unat w))"
  shows "length s = 16" "lowerHex s" "readRadix 16 s = unat w"
proof -
  have "unat w < 2 ^ 64" using unsigned_less[of w] by simp
  then have "unat w < (16::nat) ^ 16" by simp
  then have "length (showRadix 16 (unat w)) \<le> 16"
    by (intro length_showRadix) simp_all
  then show "length s = 16" unfolding s_def by (rule length_padStart)
  show "lowerHex s" unfolding s_def by (intro lowerHex_padStart lowerHex_showRadix16)
  show "readRadix 16 s = unat w" unfolding s_def
    by (simp add: readRadix_padStart readRadix_showRadix)
qed

lemma hex_byte:
  fixes b :: byte
  defines "s \<equiv> padStart 2 CHR ''0'' (showRadix 16 (unat b))"
  shows "length s = 2" "lowerHex s" "readRadix 16 s = unat b"
proof -
  have "unat b < 2 ^ 8" using unsigned_less[of b] by simp
  then have "unat b < (16::nat) ^ 2" by simp
  then have "length (showRadix 16 (unat b)) \<le> 2"
    by (intro length_showRadix) simp_all
  then show "length s = 2" unfolding s_def by (rule length_padStart)
  show "lowerHex s" unfolding s_def by (intro lowerHex_padStart lowerHex_showRadix16)
  show "readRadix 16 s = unat b" unfolding s_def
    by (simp add: readRadix_padStart readRadix_showRadix)
qed

text \<open>
  C10. \<open>memoToHex\<close> maps an absent memo and the numeric memo zero to the empty string; a
  nonzero numeric memo to 16 lowercase hex digits whose value is the memo; and a byte
  sequence to two lowercase hex digits per byte, the \<open>i\<close>-th pair having the value of byte
  \<open>i\<close>.
\<close>

theorem memoToHex_cases:
  "memoToHex MemoAbsent = '''' \<and> memoToHex (MemoNat64 0) = ''''
   \<and> (\<forall>w. w \<noteq> 0 \<longrightarrow>
          length (memoToHex (MemoNat64 w)) = 16 \<and> lowerHex (memoToHex (MemoNat64 w))
          \<and> readRadix 16 (memoToHex (MemoNat64 w)) = unat w)
   \<and> (\<forall>bs. length (memoToHex (MemoBytes bs)) = 2 * length bs
          \<and> lowerHex (memoToHex (MemoBytes bs))
          \<and> (\<forall>i < length bs.
                readRadix 16 (take 2 (drop (2 * i) (memoToHex (MemoBytes bs)))) = unat (bs ! i)))"
proof (intro conjI allI impI)
  show "memoToHex MemoAbsent = ''''" by (simp add: memoToHex_def)
  show "memoToHex (MemoNat64 0) = ''''" by (simp add: memoToHex_def)
next
  fix w :: "64 word" assume "w \<noteq> 0"
  then have m: "memoToHex (MemoNat64 w) = padStart 16 CHR ''0'' (showRadix 16 (unat w))"
    by (simp add: memoToHex_def)
  show "length (memoToHex (MemoNat64 w)) = 16" unfolding m by (rule hex_u64)
  show "lowerHex (memoToHex (MemoNat64 w))" unfolding m by (rule hex_u64)
  show "readRadix 16 (memoToHex (MemoNat64 w)) = unat w" unfolding m by (rule hex_u64)
next
  fix bs :: "byte list"
  let ?f = "\<lambda>b::byte. padStart 2 CHR ''0'' (showRadix 16 (unat b))"
  have m: "memoToHex (MemoBytes bs) = concat (map ?f bs)" by (simp add: memoToHex_def)
  have len: "\<And>b. length (?f b) = 2" by (rule hex_byte)
  show "length (memoToHex (MemoBytes bs)) = 2 * length bs"
    unfolding m using len by (rule length_concat_chunks)
  show "lowerHex (memoToHex (MemoBytes bs))"
    unfolding m using hex_byte(2) by (induction bs) (auto simp: lowerHex_def)
  fix i assume "i < length bs"
  with len have "take 2 (drop (2 * i) (concat (map ?f bs))) = ?f (bs ! i)"
    by (rule concat_chunks)
  then show "readRadix 16 (take 2 (drop (2 * i) (memoToHex (MemoBytes bs)))) = unat (bs ! i)"
    unfolding m by (simp add: hex_byte(3))
qed

theorem memoToHex_cases_witness:
  "(255::64 word) \<noteq> 0
   \<and> length (memoToHex (MemoNat64 255)) = 16
   \<and> readRadix 16 (memoToHex (MemoNat64 255)) = 255
   \<and> (0::nat) < length [1::byte, 171]
   \<and> readRadix 16 (take 2 (drop (2 * 0) (memoToHex (MemoBytes [1, 171])))) = 1"
proof -
  have nz: "(255::64 word) \<noteq> 0" by simp
  have i0: "(0::nat) < length [1::byte, 171]" by simp
  note w = memoToHex_cases [THEN conjunct2, THEN conjunct2, THEN conjunct1, rule_format, OF nz]
  note b = memoToHex_cases [THEN conjunct2, THEN conjunct2, THEN conjunct2, rule_format,
      of "[1, 171]"]
  from b have b0:
    "readRadix 16 (take 2 (drop (2 * 0) (memoToHex (MemoBytes [1, 171])))) = unat ([1::byte, 171] ! 0)"
    using i0 by blast
  from nz i0 w b0 show ?thesis by simp
qed

subsection \<open>Amount formatting\<close>

lemma readRadix_append:
  "readRadix r (a @ b) = readRadix r a * r ^ length b + readRadix r b"
proof (induction b rule: rev_induct)
  case Nil
  then show ?case by (simp add: readRadix_def)
next
  case (snoc x xs)
  have "readRadix r (a @ xs @ [x]) = readRadix r (a @ xs) * r + digitVal x"
    using readRadix_snoc[of r "a @ xs" x] by simp
  with snoc show ?case by (simp add: readRadix_snoc algebra_simps)
qed

lemma readRadix_replicate0: "readRadix r (replicate m CHR ''0'') = 0"
  by (simp add: readRadix_def readRadix_zeros)


lemma dropWhile_zeros: "\<exists>k. s = replicate k CHR ''0'' @ dropWhile (\<lambda>c. c = CHR ''0'') s"
proof (induction s)
  case Nil
  then show ?case by simp
next
  case (Cons a s)
  then obtain k where k: "s = replicate k CHR ''0'' @ dropWhile (\<lambda>c. c = CHR ''0'') s" by blast
  show ?case
  proof (cases "a = CHR ''0''")
    case True
    with k have "a # s = replicate (Suc k) CHR ''0'' @ dropWhile (\<lambda>c. c = CHR ''0'') (a # s)"
      by simp
    then show ?thesis by blast
  next
    case False
    then have "a # s = replicate 0 CHR ''0'' @ dropWhile (\<lambda>c. c = CHR ''0'') (a # s)" by simp
    then show ?thesis by blast
  qed
qed


lemma stripTrailingZeros_decomp:
  "\<exists>k. s = stripTrailingZeros s @ replicate k CHR ''0''"
proof -
  obtain k where "rev s = replicate k CHR ''0'' @ dropWhile (\<lambda>c. c = CHR ''0'') (rev s)"
    using dropWhile_zeros[of "rev s"] by blast
  then have "rev (rev s) = rev (replicate k CHR ''0'' @ dropWhile (\<lambda>c. c = CHR ''0'') (rev s))"
    by simp
  then have "s = stripTrailingZeros s @ replicate k CHR ''0''"
    by (simp add: stripTrailingZeros_def)
  then show ?thesis by blast
qed

lemma digitChar_dec: "d < 10 \<Longrightarrow> decDigit (digitChar d)"
proof -
  have "\<forall>d \<in> set [0..<10]. decDigit (digitChar d)" by code_simp
  then show "d < 10 \<Longrightarrow> decDigit (digitChar d)" by simp
qed

lemma decDigits_showRadix10: "list_all decDigit (showRadix 10 n)"
proof (induction "10::nat" n rule: showRadix.induct)
  case (1 n)
  show ?case
  proof (cases "n < 10")
    case True
    then show ?thesis using digitChar_dec[of n] by (simp add: showRadix_small)
  next
    case False
    have "n mod 10 < 10" by simp
    with 1 False show ?thesis using digitChar_dec[of "n mod 10"]
      by (simp add: showRadix_big)
  qed
qed

lemma decDigit_0: "decDigit CHR ''0''"
  by (simp add: decDigit_def)

lemma decDigit_not_dot: "decDigit c \<Longrightarrow> c \<noteq> CHR ''.''"
  by (auto simp: decDigit_def)

lemma splitOn_no_sep: "c \<notin> set a \<Longrightarrow> splitOn c a = [a]"
  by (induction a) auto

lemma splitOn_sep: "c \<notin> set a \<Longrightarrow> splitOn c (a @ c # b) = a # splitOn c b"
  by (induction a) auto

lemma decDigits_no_dot: "list_all decDigit s \<Longrightarrow> CHR ''.'' \<notin> set s"
  using decDigit_not_dot by (auto simp: list_all_iff)

lemma jsBigInt_digits: "list_all decDigit s \<Longrightarrow> jsBigInt s = Inr (int (readRadix 10 s))"
  by (simp add: jsBigInt_def)

lemma jsBigInt_zeros: "jsBigInt (replicate k CHR ''0'') = Inr 0"
  by (simp add: jsBigInt_def decDigit_0 readRadix_replicate0 list_all_iff)

lemma jsBigInt_0: "jsBigInt ''0'' = Inr 0"
  using jsBigInt_zeros[of 1] by simp

lemma toUnitsBig_whole:
  assumes "list_all decDigit w" "w \<noteq> []" "0 \<le> d"
  shows "toUnitsBig w d = Inr (int (readRadix 10 w) * 10 ^ nat d)"
proof -
  have sp: "splitOn CHR ''.'' w = [w]"
    using assms(1) by (intro splitOn_no_sep decDigits_no_dot)
  show ?thesis
  proof (cases "d = 0")
    case True
    with sp assms(1,2) show ?thesis
      by (simp add: toUnitsBig_def jsBigInt_digits jsBigInt_0 Let_def)
  next
    case False
    with sp assms show ?thesis
      by (simp add: toUnitsBig_def jsBigInt_digits jsBigInt_zeros Let_def)
  qed
qed

lemma toUnitsBig_frac:
  assumes "list_all decDigit w" "w \<noteq> []" "list_all decDigit t" "t \<noteq> []"
    and "length t \<le> nat d" "0 \<le> d"
  shows "toUnitsBig (w @ ''.'' @ t) d =
         Inr (int (readRadix 10 w) * 10 ^ nat d
              + int (readRadix 10 (t @ replicate (nat d - length t) CHR ''0'')))"
proof -
  have "splitOn CHR ''.'' (w @ CHR ''.'' # t) = w # splitOn CHR ''.'' t"
    using assms(1) by (intro splitOn_sep decDigits_no_dot)
  moreover have "splitOn CHR ''.'' t = [t]"
    using assms(3) by (intro splitOn_no_sep decDigits_no_dot)
  ultimately have sp: "splitOn CHR ''.'' (w @ ''.'' @ t) = [w, t]" by simp
  have dg: "list_all decDigit (t @ replicate (nat d - length t) CHR ''0'')"
    using assms(3) decDigit_0 by (auto simp: list_all_iff)
  from sp assms(1,2,4,5,6) show ?thesis
    by (simp add: toUnitsBig_def Let_def jsBigInt_digits[OF assms(1)] jsBigInt_digits[OF dg])
qed

lemma jsSlice_front: "0 < d \<Longrightarrow> d < int (length s) \<Longrightarrow> jsSlice s 0 (Some (- d)) = take (length s - nat d) s"
  by (simp add: jsSlice_def Let_def nat_diff_distrib)

lemma jsSlice_back: "0 < d \<Longrightarrow> d < int (length s) \<Longrightarrow> jsSlice s (- d) None = drop (length s - nat d) s"
  by (simp add: jsSlice_def Let_def nat_diff_distrib)





lemma showRadix_5000000: "showRadix 10 5000000 = ''5000000''"
  by (simp add: showRadix_big showRadix_small digitChar_def)

lemma formatAmount_example: "formatAmount (showRadix 10 5000000) 8 = ''0.05''"
  by (simp add: showRadix_5000000 formatAmount_def stripLeadingZeros_def stripTrailingZeros_def
      padStart_def jsSlice_def Let_def)


text \<open>
  The flow retriever has a \<open>formatAmount\<close> of its own. It round-trips for every
  \<open>d \<ge> 1\<close>, which covers its callers (they pass 8 or 6). With \<open>d = 0\<close>, which no caller
  passes, \<open>slice(-0)\<close> is \<open>slice(0)\<close>: the whole number is taken for the fraction.
\<close>

lemma formatAmount_rosetta_zero_decimals: "formatAmount_rosetta ''123'' 0 = ''0.123''"
  by (simp add: formatAmount_rosetta_def jsSlice_def padStart_def stripTrailingZeros_def strOr_def
      Let_def)

lemma toUnitsBig_rosetta_zero_decimals: "toUnitsBig ''0.123'' 0 = Inr 0"
  by (simp add: toUnitsBig_def jsBigInt_def decDigit_def readRadix_def digitVal_def Let_def)

lemma showRadix_no_minus: "take 1 (showRadix 10 v) \<noteq> ''-''"
proof -
  have d: "list_all decDigit (showRadix 10 v)" by (rule decDigits_showRadix10)
  have n: "showRadix 10 v \<noteq> []" by (subst showRadix.simps) simp
  then obtain c cs where c: "showRadix 10 v = c # cs" by (cases "showRadix 10 v") auto
  with d have "decDigit c" by simp
  then have "c \<noteq> CHR ''-''" by (auto simp: decDigit_def)
  with c show ?thesis by simp
qed

lemma formatAmount_rosetta_roundtrip:
  assumes "1 \<le> d"
  shows "toUnitsBig (formatAmount_rosetta (showRadix 10 v) d) d = Inr (int v)"
proof -
  define raw where "raw = showRadix 10 v"
  define p where "p = padStart (nat (d + 1)) CHR ''0'' raw"
  have rd: "list_all decDigit raw" unfolding raw_def by (rule decDigits_showRadix10)
  have rv: "readRadix 10 raw = v" unfolding raw_def by (simp add: readRadix_showRadix)
  have pd: "list_all decDigit p"
    using rd decDigit_0 by (auto simp: p_def padStart_def list_all_iff)
  have pv: "readRadix 10 p = v" unfolding p_def by (simp add: readRadix_padStart rv)
  have pl: "d < int (length p)" using assms by (auto simp: p_def padStart_def)
  have dpos: "0 < d" "0 \<le> d" using assms by simp_all
  define whole where "whole = jsSlice p 0 (Some (- d))"
  define frac where "frac = jsSlice p (- d) None"
  define trimmed where "trimmed = stripTrailingZeros frac"
  have w: "whole = take (length p - nat d) p" unfolding whole_def using dpos(1) pl by (rule jsSlice_front)
  have f: "frac = drop (length p - nat d) p" unfolding frac_def using dpos(1) pl by (rule jsSlice_back)
  have wne: "whole \<noteq> []" using pl dpos by (auto simp: w)
  have wd: "list_all decDigit whole" using pd by (auto simp: w list_all_iff dest: in_set_takeD)
  have fd: "list_all decDigit frac" using pd by (auto simp: f list_all_iff dest: in_set_dropD)
  have fl: "length frac = nat d" using pl dpos by (auto simp: f)
  have "p = whole @ frac" by (simp add: w f)
  then have val: "v = readRadix 10 whole * 10 ^ nat d + readRadix 10 frac"
    using readRadix_append[of 10 whole frac] pv fl by simp
  have out: "formatAmount_rosetta raw d
      = (if trimmed \<noteq> [] then whole @ ''.'' @ trimmed else whole)"
    using showRadix_no_minus[of v] wne
    by (simp add: formatAmount_rosetta_def Let_def strOr_def raw_def[symmetric] p_def[symmetric]
        whole_def[symmetric] frac_def[symmetric] trimmed_def[symmetric])
  obtain k where k: "frac = trimmed @ replicate k CHR ''0''"
    using stripTrailingZeros_decomp[of frac] unfolding trimmed_def by blast
  with fl have kl: "k = nat d - length trimmed" "length trimmed \<le> nat d" by auto
  from k fd have td: "list_all decDigit trimmed" by simp
  show ?thesis
  proof (cases "trimmed = []")
    case True
    with k have "readRadix 10 frac = 0" by (simp add: readRadix_replicate0)
    with val have "v = readRadix 10 whole * 10 ^ nat d" by simp
    moreover from True out have "formatAmount_rosetta raw d = whole" by simp
    ultimately show ?thesis
      using toUnitsBig_whole[OF wd wne dpos(2)] by (simp add: raw_def)
  next
    case False
    with out have o: "formatAmount_rosetta raw d = whole @ ''.'' @ trimmed" by simp
    have "toUnitsBig (whole @ ''.'' @ trimmed) d =
        Inr (int (readRadix 10 whole) * 10 ^ nat d + int (readRadix 10 frac))"
      using toUnitsBig_frac[OF wd wne td False kl(2) dpos(2)] k kl(1) by simp
    with o val show ?thesis by (simp add: raw_def)
  qed
qed

subsection \<open>Scan window and segments\<close>








subsection \<open>Identity extraction\<close>

lemma extractAccount_never_throws: "\<exists>r. extractAccount dec v = Inr r"
  by (auto simp: extractAccount_def tryCatch_def Let_def
      split: option.splits Value.splits sum.splits)

lemma handleIcrcBlock_never_throws: "\<exists>r. handleIcrcBlock dec win wallet symbol decimals bw = Inr r"
proof -
  obtain f where f: "extractAccount dec (extractValue (extractValue (Some (snd bw)) ''tx'') ''from'') = Inr f"
    using extractAccount_never_throws by blast
  obtain t where t: "extractAccount dec (extractValue (extractValue (Some (snd bw)) ''tx'') ''to'') = Inr t"
    using extractAccount_never_throws by blast
  show ?thesis
    by (simp add: handleIcrcBlock_def Let_def f t split: option.splits)
qed

text \<open>
  C8. \<open>extractAccount\<close> never throws, whatever the value and however the principal decoder
  behaves: it returns \<open>null\<close> for a map without an owner blob, an array without a first blob,
  owner bytes the decoder rejects, and every value that is neither a map nor an array; and
  the block handler, given a \<open>null\<close> identity, emits no row and raises no error.
\<close>

theorem extractAccount_total:
  "(\<exists>r. extractAccount dec v = Inr r)
   \<and> (extractBlob (extractValue (Some (VMap m)) ''owner'') = []
        \<longrightarrow> extractAccount dec (Some (VMap m)) = Inr None)
   \<and> (blobOf (if arr = [] then None else Some (arr ! 0)) = None
        \<longrightarrow> extractAccount dec (Some (VArray arr)) = Inr None)
   \<and> (dec (extractBlob (extractValue (Some (VMap m)) ''owner'')) = Inl e
        \<longrightarrow> extractAccount dec (Some (VMap m)) = Inr None)
   \<and> (arr \<noteq> [] \<and> arr ! 0 = VBlob b \<and> dec b = Inl e
        \<longrightarrow> extractAccount dec (Some (VArray arr)) = Inr None)
   \<and> (v = None \<or> (\<forall>m. v \<noteq> Some (VMap m)) \<and> (\<forall>a. v \<noteq> Some (VArray a))
        \<longrightarrow> extractAccount dec v = Inr None)
   \<and> (\<exists>r. handleIcrcBlock dec win wallet symbol decimals (i, blk) = Inr r)
   \<and> (extractAccount dec (extractValue (extractValue (Some blk) ''tx'') ''from'') = Inr None
        \<or> extractAccount dec (extractValue (extractValue (Some blk) ''tx'') ''to'') = Inr None
        \<longrightarrow> handleIcrcBlock dec win wallet symbol decimals (i, blk) = Inr None)"
proof (intro conjI impI)
  show "\<exists>r. extractAccount dec v = Inr r" by (rule extractAccount_never_throws)
  show "\<exists>r. handleIcrcBlock dec win wallet symbol decimals (i, blk) = Inr r"
    by (rule handleIcrcBlock_never_throws)
next
  assume "extractBlob (extractValue (Some (VMap m)) ''owner'') = []"
  then show "extractAccount dec (Some (VMap m)) = Inr None"
    by (simp add: extractAccount_def Let_def)
next
  assume "blobOf (if arr = [] then None else Some (arr ! 0)) = None"
  then show "extractAccount dec (Some (VArray arr)) = Inr None"
    by (simp add: extractAccount_def)
next
  assume "dec (extractBlob (extractValue (Some (VMap m)) ''owner'')) = Inl e"
  then show "extractAccount dec (Some (VMap m)) = Inr None"
    by (simp add: extractAccount_def Let_def tryCatch_def)
next
  assume "arr \<noteq> [] \<and> arr ! 0 = VBlob b \<and> dec b = Inl e"
  then show "extractAccount dec (Some (VArray arr)) = Inr None"
    by (simp add: extractAccount_def blobOf_def tryCatch_def)
next
  assume "v = None \<or> (\<forall>m. v \<noteq> Some (VMap m)) \<and> (\<forall>a. v \<noteq> Some (VArray a))"
  then show "extractAccount dec v = Inr None"
    by (auto simp: extractAccount_def split: option.splits Value.splits)
next
  assume a: "extractAccount dec (extractValue (extractValue (Some blk) ''tx'') ''from'') = Inr None
        \<or> extractAccount dec (extractValue (extractValue (Some blk) ''tx'') ''to'') = Inr None"
  obtain f where f: "extractAccount dec (extractValue (extractValue (Some blk) ''tx'') ''from'') = Inr f"
    using extractAccount_never_throws by blast
  obtain t where t: "extractAccount dec (extractValue (extractValue (Some blk) ''tx'') ''to'') = Inr t"
    using extractAccount_never_throws by blast
  from a f t have "f = None \<or> t = None" by auto
  then have "icrcDirection f t wallet = None" by (auto simp: icrcDirection_def)
  then show "handleIcrcBlock dec win wallet symbol decimals (i, blk) = Inr None"
    by (simp add: handleIcrcBlock_def Let_def f t)
qed

theorem extractAccount_total_witness:
  "extractBlob (extractValue (Some (VMap [(''subaccount'', VBlob [1])])) ''owner'') = []
   \<and> extractAccount (\<lambda>b. Inr (Principal ''aaaaa-aa'')) (Some (VMap [(''subaccount'', VBlob [1])]))
       = Inr None
   \<and> (\<lambda>b. Inl TypeError :: js_error + principal)
         (extractBlob (extractValue (Some (VMap [(''owner'', VBlob [1])])) ''owner'')) = Inl TypeError
   \<and> extractAccount (\<lambda>b. Inl TypeError) (Some (VMap [(''owner'', VBlob [1])])) = Inr None"
proof -
  have h1: "extractBlob (extractValue (Some (VMap [(''subaccount'', VBlob [1])])) ''owner'') = []"
    by (simp add: extractBlob_def extractValue_def)
  have h2: "(\<lambda>b. Inl TypeError :: js_error + principal)
         (extractBlob (extractValue (Some (VMap [(''owner'', VBlob [1])])) ''owner'')) = Inl TypeError"
    by simp
  note t1 = extractAccount_total [where dec = "\<lambda>b. Inr (Principal ''aaaaa-aa'')"
      and m = "[(''subaccount'', VBlob [1])]", THEN conjunct2, THEN conjunct1, rule_format, OF h1]
  note t2 = extractAccount_total [where dec = "\<lambda>b. Inl TypeError"
      and m = "[(''owner'', VBlob [1])]" and e = TypeError,
      THEN conjunct2, THEN conjunct2, THEN conjunct2, THEN conjunct1, rule_format, OF h2]
  from h1 h2 t1 t2 show ?thesis by blast
qed

subsection \<open>Account matching\<close>

lemma loop_compare:
  assumes "length x = length y"
  shows "list_all (\<lambda>i. x ! i = y ! i) [0 ..< length x] \<longleftrightarrow> x = y"
proof -
  have "list_all (\<lambda>i. x ! i = y ! i) [0 ..< length x] \<longleftrightarrow> (\<forall>i < length x. x ! i = y ! i)"
    by (auto simp: list_all_iff)
  also have "\<dots> \<longleftrightarrow> x = y"
    using assms by (auto intro: nth_equalityI)
  finally show ?thesis .
qed

lemma eqAccount_iff:
  "eqAccount (Some a) b \<longleftrightarrow>
     toText (owner a) = toText (owner b)
     \<and> normalizeSub (subaccount a) = normalizeSub (subaccount b)"
proof (cases "toText (owner a) = toText (owner b)")
  case False
  then show ?thesis by (simp add: eqAccount_def)
next
  case True
  show ?thesis
  proof (cases "normalizeSub (subaccount a)")
    case None
    with True show ?thesis by (auto simp: eqAccount_def split: option.splits)
  next
    case (Some x)
    note sa = Some
    show ?thesis
    proof (cases "normalizeSub (subaccount b)")
      case None
      with True sa show ?thesis by (simp add: eqAccount_def)
    next
      case (Some y)
      with True sa show ?thesis
        using loop_compare[of x y] by (auto simp: eqAccount_def)
    qed
  qed
qed

text \<open>
  The matcher of the Candid scanner has no matching mode: two accounts with the same owner
  and different sub-identities do not match.
\<close>

theorem eqAccount_ignores_subaccount_counterexample:
  "\<not> eqAccount (Some \<lparr>owner = Principal watchedPrincipal, subaccount = Some [1]\<rparr>)
               \<lparr>owner = Principal watchedPrincipal, subaccount = None\<rparr>"
  by (simp add: eqAccount_def normalizeSub_def)

text \<open>
  C3 (as the code has it). In the REST scanner, \<open>matchesIcrcAccount\<close> with the strict mode
  disabled matches exactly the accounts whose owner is non-empty and equal to the wallet
  owner, whatever the sub-identities; with the strict mode enabled it also requires equal
  normalised sub-identities. The matcher of the Candid scanner, \<open>eqAccount\<close>, has no mode:
  it matches exactly when the owners have the same text and the normalised sub-identities
  are equal.
\<close>

theorem account_matching_modes:
  "(\<not> strictSubaccountMatch config \<longrightarrow>
      (matchesIcrcAccount config (Some acc) walletOwner walletSubHex
         \<longleftrightarrow> acct_owner acc \<noteq> [] \<and> acct_owner acc = walletOwner))
   \<and> (strictSubaccountMatch config \<longrightarrow>
      (matchesIcrcAccount config (Some acc) walletOwner walletSubHex
         \<longleftrightarrow> acct_owner acc \<noteq> [] \<and> acct_owner acc = walletOwner
             \<and> normalizeSubaccount (acct_subaccount acc) = normalizeSubaccount walletSubHex))
   \<and> (eqAccount (Some a) b
         \<longleftrightarrow> toText (owner a) = toText (owner b)
             \<and> normalizeSub (subaccount a) = normalizeSub (subaccount b))"
  by (auto simp: matchesIcrcAccount_def equalSubaccounts_def eqAccount_iff)

theorem account_matching_modes_witness:
  "\<not> strictSubaccountMatch (strictExample\<lparr>strictSubaccountMatch := False\<rparr>)
   \<and> matchesIcrcAccount (strictExample\<lparr>strictSubaccountMatch := False\<rparr>)
        (Some \<lparr>acct_owner = watchedPrincipal, acct_subaccount = Some subOne\<rparr>)
        watchedPrincipal None
   \<and> strictSubaccountMatch strictExample
   \<and> \<not> matchesIcrcAccount strictExample
        (Some \<lparr>acct_owner = watchedPrincipal, acct_subaccount = Some subOne\<rparr>)
        watchedPrincipal None"
proof -
  let ?a = "\<lparr>acct_owner = watchedPrincipal, acct_subaccount = Some subOne\<rparr>"
  have n: "normalizeSubaccount (Some subOne) \<noteq> normalizeSubaccount None"
    by (simp add: normalizeSubaccount_subOne normalizeSubaccount_None subOne_nonempty)
  have s: "strictSubaccountMatch strictExample"
    "\<not> strictSubaccountMatch (strictExample\<lparr>strictSubaccountMatch := False\<rparr>)"
    by (simp_all add: strictExample_def)
  from account_matching_modes [of "strictExample\<lparr>strictSubaccountMatch := False\<rparr>" ?a
      watchedPrincipal None]
    account_matching_modes [of strictExample ?a watchedPrincipal None]
    n s watchedPrincipal_nonempty
  show ?thesis by simp
qed

subsection \<open>Direction classification\<close>

lemma icrcDirection_range:
  "icrcDirection from to wallet \<in> {Some Self, Some Inflow, Some Outflow, None}"
  by (simp add: icrcDirection_def)

lemma icrcDirection_self_iff:
  "icrcDirection from to wallet = Some Self \<longleftrightarrow> eqAccount from wallet \<and> eqAccount to wallet"
  by (cases "from"; cases to) (auto simp: icrcDirection_def eqAccount_def)

lemma fromIcrcTransaction_range:
  "fromIcrcTransaction config tx = Some row \<Longrightarrow> direction row \<in> {Self, Inflow, Outflow}"
  by (auto simp: fromIcrcTransaction_def Let_def split: if_splits option.splits)

lemma fromIcrcTransaction_self_iff:
  "(\<exists>row. fromIcrcTransaction config tx = Some row \<and> direction row = Self) \<longleftrightarrow>
     toLowerCase (icrc_op tx) \<in> set [''transfer'', ''1xfer'', ''icrc1_transfer'', ''xfer'']
     \<and> matchesIcrcAccount config (icrc_from tx) (wallet_principal config) None
     \<and> matchesIcrcAccount config (icrc_to tx) (wallet_principal config) None"
  by (auto simp: fromIcrcTransaction_def Let_def split: if_splits option.splits)

lemma matches_without_sub:
  assumes "\<not> strictSubaccountMatch config \<or> normalizeSubaccount (Some (wallet_subaccountHex config)) = ''''"
  shows "matchesIcrcAccount config acc w None
         = matchesIcrcAccount config acc w (Some (wallet_subaccountHex config))"
proof -
  from assms normalizeSubaccount_None show ?thesis
    by (auto simp: matchesIcrcAccount_def equalSubaccounts_def split: option.splits)
qed

lemma lower_transfer: "toLowerCase ''transfer'' = ''transfer''"
  by (simp add: toLowerCase_def toLowerChar_def)

lemma strict_filter_passes_selfTransfer:
  "passesStrictSubaccountFilter strictExample selfTransfer
     (Some (wallet_subaccountHex strictExample))"
  by (simp add: passesStrictSubaccountFilter_def Let_def strictExample_def selfTransfer_def
      orEmpty_def subOne_def)

text \<open>
  C2. The direction is one of self, inflow, outflow or none, and it is self exactly when both
  identities match the watched account under the active matching mode. The Candid scanner
  does this (\<open>icrcDirection_range\<close>, \<open>icrcDirection_self_iff\<close>), and so does the REST scanner
  when the strict mode is off or the wallet has the default sub-identity
  (\<open>fromIcrcTransaction_self_iff\<close>, \<open>matches_without_sub\<close>). With the strict mode on and a
  wallet sub-identity other than the default one, a transfer between two accounts that both match the wallet is
  reported as self by the sanity check of the same file, passes the strict filter of the
  scan loop, and is then dropped by \<open>fromIcrcTransaction\<close>, which compares with no wallet
  sub-identity.
\<close>

theorem fromIcrcTransaction_strict_self_dropped:
  "matchesIcrcAccount strictExample (icrc_from selfTransfer) (wallet_principal strictExample)
      (Some (wallet_subaccountHex strictExample))
   \<and> matchesIcrcAccount strictExample (icrc_to selfTransfer) (wallet_principal strictExample)
      (Some (wallet_subaccountHex strictExample))
   \<and> checkIcrcTransaction_direction strictExample selfTransfer = ''self''
   \<and> fromIcrcTransaction strictExample selfTransfer = None
   \<and> scanIcrcToken_row strictExample selfTransfer = None"
proof -
  have m: "matchesIcrcAccount strictExample
             (Some \<lparr>acct_owner = watchedPrincipal, acct_subaccount = Some subOne\<rparr>)
             watchedPrincipal (Some subOne)"
    using watchedPrincipal_nonempty
    by (simp add: matchesIcrcAccount_def equalSubaccounts_def strictExample_def)
  have n: "\<not> matchesIcrcAccount strictExample
             (Some \<lparr>acct_owner = watchedPrincipal, acct_subaccount = Some subOne\<rparr>)
             watchedPrincipal None"
    using watchedPrincipal_nonempty subOne_nonempty
    by (simp add: matchesIcrcAccount_def equalSubaccounts_def strictExample_def
        normalizeSubaccount_subOne normalizeSubaccount_None)
  have c: "wallet_principal strictExample = watchedPrincipal"
    "wallet_subaccountHex strictExample = subOne" "strictSubaccountMatch strictExample"
    by (simp_all add: strictExample_def)
  have t: "icrc_from selfTransfer
             = Some \<lparr>acct_owner = watchedPrincipal, acct_subaccount = Some subOne\<rparr>"
    "icrc_to selfTransfer
       = Some \<lparr>acct_owner = watchedPrincipal, acct_subaccount = Some subOne\<rparr>"
    "icrc_op selfTransfer = ''transfer''"
    by (simp_all add: selfTransfer_def)
  have f: "fromIcrcTransaction strictExample selfTransfer = None"
    using n by (simp add: fromIcrcTransaction_def Let_def c t lower_transfer)
  have p: "passesStrictSubaccountFilter strictExample selfTransfer (Some subOne)"
    using strict_filter_passes_selfTransfer by (simp add: c)
  have s: "checkIcrcTransaction_direction strictExample selfTransfer = ''self''"
    using m by (simp add: checkIcrcTransaction_direction_def Let_def c t)
  from m f p s show ?thesis
    by (simp add: scanIcrcToken_row_def c t)
qed

subsection \<open>Mint and burn\<close>

text \<open>
  The block handler of the Candid scanner returns at \<open>if (opKey !== "Transfer") return;\<close>:
  a mint to the watched account, inside the window, produces no row.
\<close>

theorem handleBlock_mint_not_emitted_counterexample:
  "tx_operation mintBlock = Some (OpMint watchedId 5000000)
   \<and> handleBlock window2025 watchedIdHex ''ICP'' 8 mintBlock 42 = None"
  by (simp add: handleBlock_def Let_def mintBlock_def)

text \<open>
  C4 (as the code has it). The native-ledger mapping of the REST scanner,
  \<open>fromIcpTransaction\<close>, turns every transaction whose \<open>transfer_type\<close> is mint or burn
  (in any letter case) into a row with that direction, whatever its identities and whatever
  the watched account. The block handler of the Candid scanner emits nothing for an
  operation other than Transfer, and the ICRC mappings of both scanners emit nothing for an
  operation that is not a transfer.
\<close>

theorem mint_burn_by_scanner:
  "(toLowerCase (icp_transfer_type tx) = ''mint'' \<longrightarrow>
      (\<exists>row. fromIcpTransaction config tx = Some row \<and> direction row = Mint))
   \<and> (toLowerCase (icp_transfer_type tx) = ''burn'' \<longrightarrow>
      (\<exists>row. fromIcpTransaction config tx = Some row \<and> direction row = Burn))
   \<and> ((\<forall>src dst e8s. tx_operation block \<noteq> Some (OpTransfer src dst e8s)) \<longrightarrow>
      handleBlock win icpAccountIdHex symbol decimals block blockIndex = None)
   \<and> (toLowerCase (icrc_op itx) \<notin> set [''transfer'', ''1xfer'', ''icrc1_transfer'', ''xfer''] \<longrightarrow>
      fromIcrcTransaction config itx = None)
   \<and> (strOr (extractText (extractValue (extractValue (Some blk) ''tx'') ''op''))
          (strOr (extractText (extractValue (Some blk) ''btype''))
                 (extractText (extractValue (Some blk) ''type''))) \<notin> set [''xfer'', ''transfer''] \<longrightarrow>
      handleIcrcBlock dec win wallet symbol decimals (i, blk) = Inr None)"
proof (intro conjI impI)
  assume "toLowerCase (icp_transfer_type tx) = ''mint''"
  then show "\<exists>row. fromIcpTransaction config tx = Some row \<and> direction row = Mint"
    by (simp add: fromIcpTransaction_def Let_def)
next
  assume "toLowerCase (icp_transfer_type tx) = ''burn''"
  then show "\<exists>row. fromIcpTransaction config tx = Some row \<and> direction row = Burn"
    by (simp add: fromIcpTransaction_def Let_def)
next
  assume "\<forall>src dst e8s. tx_operation block \<noteq> Some (OpTransfer src dst e8s)"
  then show "handleBlock win icpAccountIdHex symbol decimals block blockIndex = None"
    by (auto simp: handleBlock_def Let_def split: option.splits Operation.splits)
next
  assume "toLowerCase (icrc_op itx) \<notin> set [''transfer'', ''1xfer'', ''icrc1_transfer'', ''xfer'']"
  then show "fromIcrcTransaction config itx = None"
    by (simp add: fromIcrcTransaction_def Let_def)
next
  assume "strOr (extractText (extractValue (extractValue (Some blk) ''tx'') ''op''))
          (strOr (extractText (extractValue (Some blk) ''btype''))
                 (extractText (extractValue (Some blk) ''type''))) \<notin> set [''xfer'', ''transfer'']"
  then show "handleIcrcBlock dec win wallet symbol decimals (i, blk) = Inr None"
    by (simp add: handleIcrcBlock_def Let_def)
qed

theorem mint_burn_by_scanner_witness:
  "toLowerCase (icp_transfer_type mintTx) = ''mint''
   \<and> (\<exists>row. fromIcpTransaction strictExample mintTx = Some row \<and> direction row = Mint)
   \<and> (\<forall>src dst e8s. tx_operation mintBlock \<noteq> Some (OpTransfer src dst e8s))
   \<and> handleBlock window2025 watchedIdHex ''ICP'' 8 mintBlock 42 = None"
proof -
  have h1: "toLowerCase (icp_transfer_type mintTx) = ''mint''"
    by (simp add: mintTx_def toLowerCase_def toLowerChar_def)
  have h2: "\<forall>src dst e8s. tx_operation mintBlock \<noteq> Some (OpTransfer src dst e8s)"
    by (simp add: mintBlock_def)
  note t = mint_burn_by_scanner [where tx = mintTx and config = strictExample
      and block = mintBlock and win = window2025 and icpAccountIdHex = watchedIdHex
      and symbol = "''ICP''" and decimals = 8 and blockIndex = 42]
  from t h1 have r1: "\<exists>row. fromIcpTransaction strictExample mintTx = Some row \<and> direction row = Mint"
    by blast
  from t h2 have r2: "handleBlock window2025 watchedIdHex ''ICP'' 8 mintBlock 42 = None"
    by blast
  from h1 h2 r1 r2 show ?thesis by blast
qed

subsection \<open>Time window\<close>

lemma showRadix_42: "showRadix 10 42 = ''42''"
  by (simp add: showRadix_big showRadix_small digitChar_def)

lemma handleBlock_outside_window:
  assumes "n64ToMillis (Some (timestamp_nanos block)) = Some t" "t \<noteq> 0"
    and "t < FROM_MS win \<or> t > TO_MS win"
  shows "handleBlock win icpAccountIdHex symbol decimals block blockIndex = None"
  using assms by (simp add: handleBlock_def Let_def)

lemma handleIcrcBlock_outside_window:
  assumes "int (extractNat (extractValue (Some blk) ''ts'')) < FROM_TS win
         \<or> int (extractNat (extractValue (Some blk) ''ts'')) > TO_TS win"
  shows "handleIcrcBlock dec win wallet symbol decimals (i, blk) = Inr None"
  using assms by (simp add: handleIcrcBlock_def Let_def)

text \<open>
  C7. A block whose timestamp lies outside the window \<open>[from, to]\<close> produces no row. The
  ICRC-3 handler does this for every block (\<open>handleIcrcBlock_outside_window\<close>), and the
  native-ledger handler for every block whose millisecond timestamp is not zero
  (\<open>handleBlock_outside_window\<close>). A native-ledger block stamped within the first
  millisecond of the epoch has the millisecond timestamp \<open>0\<close>, which \<open>ts && ...\<close> takes
  for a missing one: the window test is skipped and a transfer to the watched account is
  emitted, with an empty date, although the window starts in 2025.
\<close>

theorem handleBlock_epoch_block_emitted:
  "n64ToMillis (Some (timestamp_nanos epochBlock)) = Some 0
   \<and> 0 < FROM_MS window2025
   \<and> handleBlock window2025 watchedIdHex ''ICP'' 8 epochBlock 42 =
       Some \<lparr>date_iso = EmptyDate, token = ''ICP'', direction = Inflow, amount = ''0.05'',
             from_principal = '''', to_principal = '''', block_index = ''42'', memo = ''''\<rparr>"
proof -
  have ts: "n64ToMillis (Some (timestamp_nanos epochBlock)) = Some 0"
    by (simp add: n64ToMillis_def epochBlock_def)
  have w: "0 < FROM_MS window2025" by (simp add: window2025_def)
  have op: "tx_operation epochBlock = Some (OpTransfer otherId watchedId 5000000)"
    "tx_memo epochBlock = 0"
    by (simp_all add: epochBlock_def)
  have "handleBlock window2025 watchedIdHex ''ICP'' 8 epochBlock 42 =
       Some \<lparr>date_iso = EmptyDate, token = ''ICP'', direction = Inflow, amount = ''0.05'',
             from_principal = '''', to_principal = '''', block_index = ''42'', memo = ''''\<rparr>"
    unfolding handleBlock_def Let_def ts op
    using otherIdHex_neq
    by (simp add: accountIdToHex_def toHex_watchedId toHex_otherId lower_watchedIdHex
        formatAmount_example showRadix_42 memoToHex_def)
  with ts w show ?thesis by simp
qed

subsection \<open>Failure of a segment fetch\<close>

lemma pushRow_fields:
  "rows (pushRow st r) = rows st @ (case r of None \<Rightarrow> [] | Some row \<Rightarrow> [row])"
  "segDone (pushRow st r) = segDone st"
  "errors (pushRow st r) = errors st"
  by (simp_all add: pushRow_def split: option.splits)

lemma handle_all_fields:
  fixes h :: "nat \<Rightarrow> IcpBlock \<Rightarrow> CsvRow option"
  shows "rows (foldl (\<lambda>s (index, block). pushRow s (h index block)) st fetched)
           = rows st @ List.map_filter (\<lambda>(index, block). h index block) fetched"
    and "segDone (foldl (\<lambda>s (index, block). pushRow s (h index block)) st fetched) = segDone st"
    and "errors (foldl (\<lambda>s (index, block). pushRow s (h index block)) st fetched) = errors st"
proof (induction fetched arbitrary: st)
  case Nil
  {
    case 1 show ?case by (simp add: List.map_filter_simps)
  next
    case 2 show ?case by simp
  next
    case 3 show ?case by simp
  }
next
  case (Cons ib fetched)
  {
    case 1
    show ?case
      by (cases ib) (simp add: Cons.IH pushRow_fields List.map_filter_simps split: option.splits)
  next
    case 2 show ?case by (cases ib) (simp add: Cons.IH pushRow_fields)
  next
    case 3 show ?case by (cases ib) (simp add: Cons.IH pushRow_fields)
  }
qed

lemma processSegment_fields:
  "rows (processSegment win hex symbol decimals ledger st seg)
     = rows st @ segmentRows win hex symbol decimals ledger seg"
  "segDone (processSegment win hex symbol decimals ledger st seg) = segDone st + 1"
  "errors (processSegment win hex symbol decimals ledger st seg)
     = errors st @ segmentErrors ledger seg"
  using handle_all_fields[of "\<lambda>index block. handleBlock win hex symbol decimals block index" st]
  by (auto simp: processSegment_def segmentRows_def segmentErrors_def Let_def split: sum.splits)

lemma foldl_processSegment_fields:
  "rows (foldl (processSegment win hex symbol decimals ledger) st segs)
     = rows st @ concat (map (segmentRows win hex symbol decimals ledger) segs)"
  "segDone (foldl (processSegment win hex symbol decimals ledger) st segs)
     = segDone st + length segs"
  "errors (foldl (processSegment win hex symbol decimals ledger) st segs)
     = errors st @ concat (map (segmentErrors ledger) segs)"
  by (induction segs arbitrary: st) (simp_all add: processSegment_fields)

lemma scanSegments_fields:
  "rows (scanSegments win hex symbol decimals ledger completed)
     = concat (map (segmentRows win hex symbol decimals ledger) completed)"
  "segDone (scanSegments win hex symbol decimals ledger completed) = length completed"
  "errors (scanSegments win hex symbol decimals ledger completed)
     = concat (map (segmentErrors ledger) completed)"
  by (simp_all add: scanSegments_def foldl_processSegment_fields initialScan_def)

lemma seqLoop_stops_at_failure:
  assumes "cursor \<ge> startIndex" "scanned st < maxBlocks"
    and "query_blocks ledger (cursor - (min PAGE_seq (cursor - startIndex + 1) - 1))
           (min PAGE_seq (cursor - startIndex + 1)) = Inl e"
  shows "seqLoop maxBlocks cutoff hex symbol decimals ledger startIndex cursor st
         = st\<lparr>seq_errors := seq_errors st @ [e]\<rparr>"
  using assms
  by (subst seqLoop.simps) (simp add: Let_def seqPage_def)

lemma july_ms: "n64ToMillis (Some (timestamp_nanos julyTransfer)) = Some 1751328000000"
  by (simp add: n64ToMillis_def julyTransfer_def)

lemma showRadix_0: "showRadix 10 0 = ''0''"
  by (simp add: showRadix_small digitChar_def)

lemma handleBlock_july:
  "handleBlock window2025 watchedIdHex ''ICP'' 8 julyTransfer 0 = Some julyRow"
proof -
  have op: "tx_operation julyTransfer = Some (OpTransfer otherId watchedId 5000000)"
    "tx_memo julyTransfer = 0"
    by (simp_all add: julyTransfer_def)
  show ?thesis
    unfolding handleBlock_def Let_def july_ms op
    using otherIdHex_neq
    by (simp add: accountIdToHex_def toHex_watchedId toHex_otherId lower_watchedIdHex
        formatAmount_example showRadix_0 memoToHex_def window2025_def julyRow_def)
qed

lemma seqBlockRow_july:
  "seqBlockRow 1924991999000 watchedIdHex ''ICP'' 8 (0, julyTransfer) = Some julyRow"
proof -
  have op: "tx_operation julyTransfer = Some (OpTransfer otherId watchedId 5000000)"
    "tx_memo julyTransfer = 0"
    by (simp_all add: julyTransfer_def)
  show ?thesis
    unfolding seqBlockRow_def Let_def fst_conv snd_conv july_ms op
    using otherIdHex_neq
    by (simp add: accountIdToHex_def toHex_watchedId toHex_otherId lower_watchedIdHex
        formatAmount_example showRadix_0 memoToHex_def julyRow_def)
qed

lemma flaky_upper: "query_blocks flakyLedger 1000 1000 = Inl NetworkError"
  by (simp add: flakyLedger_def)

lemma flaky_lower:
  "query_blocks flakyLedger 0 1000 =
     Inr \<lparr>chain_length = 2000, page_blocks = [julyTransfer], first_block_index = 0,
          archived_blocks = []\<rparr>"
  by (simp add: flakyLedger_def)

lemma flaky_meta:
  "query_blocks flakyLedger 0 1 =
     Inr \<lparr>chain_length = 2000, page_blocks = [], first_block_index = 0, archived_blocks = []\<rparr>"
  "query_blocks flakyLedger 0 0 =
     Inr \<lparr>chain_length = 2000, page_blocks = [], first_block_index = 0, archived_blocks = []\<rparr>"
  by (simp_all add: flakyLedger_def)

lemma indexed_single: "indexed k [b] = [(k, b)]"
  by (simp add: indexed_def)

lemma seqPage_flaky_lower:
  "seqPage 1000000 1924991999000 watchedIdHex ''ICP'' 8 flakyLedger 0 1000
     \<lparr>seq_rows = [], scanned = 0, seq_errors = []\<rparr>
   = Inr \<lparr>seq_rows = [julyRow], scanned = 1, seq_errors = []\<rparr>"
  by (simp add: seqPage_def flaky_lower Let_def indexed_single seqBlockRow_july seqPush_def)

text \<open>
  The sequential scanner leaves its loop at the first failed fetch (\<open>break\<close> in the
  \<open>catch\<close>): on a ledger whose upper page fails, it returns no row and never asks for the
  lower page, whose fetch would succeed and yield a matching row.
\<close>

theorem sequential_scan_stops_counterexample:
  "scanIcpLedger_seq 1000000 1924991999000 watchedIdHex ''ICP'' 8 flakyLedger
     = \<lparr>seq_rows = [], scanned = 0, seq_errors = [NetworkError]\<rparr>
   \<and> seqPage 1000000 1924991999000 watchedIdHex ''ICP'' 8 flakyLedger 0 1000
        \<lparr>seq_rows = [], scanned = 0, seq_errors = []\<rparr>
     = Inr \<lparr>seq_rows = [julyRow], scanned = 1, seq_errors = []\<rparr>"
proof -
  have w: "scanWindow 2000 1000000 = (0, 1999)" by (simp add: scanWindow_def)
  have "seqLoop 1000000 1924991999000 watchedIdHex ''ICP'' 8 flakyLedger 0 1999
          \<lparr>seq_rows = [], scanned = 0, seq_errors = []\<rparr>
        = \<lparr>seq_rows = [], scanned = 0, seq_errors = [NetworkError]\<rparr>"
    by (subst seqLoop.simps) (simp add: PAGE_seq_def Let_def seqPage_def flaky_upper)
  then have "scanIcpLedger_seq 1000000 1924991999000 watchedIdHex ''ICP'' 8 flakyLedger
     = \<lparr>seq_rows = [], scanned = 0, seq_errors = [NetworkError]\<rparr>"
    by (simp add: scanIcpLedger_seq_def flaky_meta w)
  with seqPage_flaky_lower show ?thesis by simp
qed

lemma segs_2000:
  "buildSegments 0 1999 1000 =
     Some [\<lparr>seg_start = 1000, seg_length = 1000, seg_idx = 0\<rparr>,
           \<lparr>seg_start = 0, seg_length = 1000, seg_idx = 1\<rparr>]"
  by (simp add: buildSegments_def buildSegments_loop.simps Let_def)

lemma fetch_flaky:
  "fetchIcpBlocks flakyLedger 1000 1000 = Inl NetworkError"
  "fetchIcpBlocks flakyLedger 0 1000 = Inr [(0, julyTransfer)]"
  by (simp_all add: fetchIcpBlocks_def flaky_upper flaky_lower indexed_single)

text \<open>
  C9 (as the code has it). In the parallel scanner a segment whose fetch fails is counted as
  done, its error is written, and it contributes no row; every other segment is handled
  whatever happened to the failed one, so the rows of a scan are exactly the rows of the
  segments fetched successfully, in the order of completion. In the sequential scanner a
  failed page fetch is written and ends the scan of that ledger: the state reached so far is
  returned and no lower page is fetched.
\<close>

theorem segment_failure_policy:
  "rows (scanSegments win hex symbol decimals ledger completed)
     = concat (map (segmentRows win hex symbol decimals ledger) completed)
   \<and> segDone (scanSegments win hex symbol decimals ledger completed) = length completed
   \<and> errors (scanSegments win hex symbol decimals ledger completed)
     = concat (map (segmentErrors ledger) completed)
   \<and> (\<forall>seg e. fetchIcpBlocks ledger (seg_start seg) (seg_length seg) = Inl e \<longrightarrow>
         segmentRows win hex symbol decimals ledger seg = [] \<and> segmentErrors ledger seg = [e])
   \<and> (\<forall>seg fetched. fetchIcpBlocks ledger (seg_start seg) (seg_length seg) = Inr fetched \<longrightarrow>
         segmentRows win hex symbol decimals ledger seg
           = List.map_filter (\<lambda>(index, block). handleBlock win hex symbol decimals block index) fetched
         \<and> segmentErrors ledger seg = [])
   \<and> (cursor \<ge> startIndex \<and> scanned st < maxBlocks
        \<and> query_blocks ledger (cursor - (min PAGE_seq (cursor - startIndex + 1) - 1))
             (min PAGE_seq (cursor - startIndex + 1)) = Inl err \<longrightarrow>
       seqLoop maxBlocks cutoff hex symbol decimals ledger startIndex cursor st
         = st\<lparr>seq_errors := seq_errors st @ [err]\<rparr>)"
  by (simp add: scanSegments_fields segmentRows_def segmentErrors_def seqLoop_stops_at_failure)

theorem segment_failure_policy_witness:
  "fetchIcpBlocks flakyLedger (seg_start \<lparr>seg_start = 1000, seg_length = 1000, seg_idx = 0\<rparr>)
       (seg_length \<lparr>seg_start = 1000, seg_length = 1000, seg_idx = 0\<rparr>) = Inl NetworkError
   \<and> rows (scanSegments window2025 watchedIdHex ''ICP'' 8 flakyLedger
        [\<lparr>seg_start = 1000, seg_length = 1000, seg_idx = 0\<rparr>,
         \<lparr>seg_start = 0, seg_length = 1000, seg_idx = 1\<rparr>]) = [julyRow]
   \<and> errors (scanSegments window2025 watchedIdHex ''ICP'' 8 flakyLedger
        [\<lparr>seg_start = 1000, seg_length = 1000, seg_idx = 0\<rparr>,
         \<lparr>seg_start = 0, seg_length = 1000, seg_idx = 1\<rparr>]) = [NetworkError]
   \<and> segDone (scanSegments window2025 watchedIdHex ''ICP'' 8 flakyLedger
        [\<lparr>seg_start = 1000, seg_length = 1000, seg_idx = 0\<rparr>,
         \<lparr>seg_start = 0, seg_length = 1000, seg_idx = 1\<rparr>]) = 2"
proof -
  let ?s0 = "\<lparr>seg_start = 1000, seg_length = 1000, seg_idx = 0\<rparr>"
  let ?s1 = "\<lparr>seg_start = 0, seg_length = 1000, seg_idx = 1\<rparr>"
  note t = segment_failure_policy [where win = window2025 and hex = watchedIdHex
      and symbol = "''ICP''" and decimals = 8 and ledger = flakyLedger
      and completed = "[?s0, ?s1]"]
  have f0: "fetchIcpBlocks flakyLedger (seg_start ?s0) (seg_length ?s0) = Inl NetworkError"
    by (simp add: fetch_flaky)
  have f1: "fetchIcpBlocks flakyLedger (seg_start ?s1) (seg_length ?s1) = Inr [(0, julyTransfer)]"
    by (simp add: fetch_flaky)
  from t f0 have r0: "segmentRows window2025 watchedIdHex ''ICP'' 8 flakyLedger ?s0 = []"
    "segmentErrors flakyLedger ?s0 = [NetworkError]" by blast+
  from t f1 have r1: "segmentRows window2025 watchedIdHex ''ICP'' 8 flakyLedger ?s1
      = List.map_filter (\<lambda>(index, block). handleBlock window2025 watchedIdHex ''ICP'' 8 block index)
          [(0, julyTransfer)]"
    "segmentErrors flakyLedger ?s1 = []" by blast+
  have m: "List.map_filter (\<lambda>(index, block). handleBlock window2025 watchedIdHex ''ICP'' 8 block index)
          [(0, julyTransfer)] = [julyRow]"
    by (simp add: List.map_filter_simps handleBlock_july)
  from t r0 r1 m f0 show ?thesis by simp
qed

lemma scanIcpLedger_flaky:
  "scanIcpLedger window2025 1000000 1000 (\<lambda>segs. segs) watchedIdHex ''ICP'' 8 flakyLedger
     = Some \<lparr>rows = [julyRow], segDone = 2, blocksSeen = 1, matches = 1, errors = [NetworkError]\<rparr>"
proof -
  have w: "scanWindow 2000 1000000 = (0, 1999)" by (simp add: scanWindow_def)
  show ?thesis
    by (simp add: scanIcpLedger_def flaky_meta w segs_2000 scanSegments_def processSegment_def
        fetch_flaky initialScan_def pushRow_def handleBlock_july Let_def)
qed

end
